theory Spec2Isabelle
  imports Main "HOL-Library.Sublist"
begin

section \<open>Python strings\<close>

text \<open>
  A Python \<open>str\<close> is a sequence of Unicode code points, so it is modelled as a list of
  natural numbers. \<open>py\<close> turns an ASCII literal into such a list; the user-interface texts
  of \<open>main.py\<close> that are not ASCII are written out by code point below.
\<close>

type_synonym str = "nat list"

definition py :: "string \<Rightarrow> str" where
  "py s = map of_char s"

text \<open>The characters for which \<open>str.isspace\<close> holds; \<open>str.strip()\<close> removes them at both ends.\<close>

definition isspace :: "nat \<Rightarrow> bool" where
  "isspace c \<longleftrightarrow>
     (0x09 \<le> c \<and> c \<le> 0x0D) \<or> (0x1C \<le> c \<and> c \<le> 0x20) \<or> c = 0x85 \<or> c = 0xA0 \<or>
     c = 0x1680 \<or> (0x2000 \<le> c \<and> c \<le> 0x200A) \<or> c = 0x2028 \<or> c = 0x2029 \<or>
     c = 0x202F \<or> c = 0x205F \<or> c = 0x3000"

definition strip :: "str \<Rightarrow> str" where
  "strip s = rev (dropWhile isspace (rev (dropWhile isspace s)))"

text \<open>Python's \<open>needle in haystack\<close> on strings is \<^const>\<open>sublist\<close>: a contiguous occurrence.\<close>

section \<open>The literals of \<open>main.py\<close>\<close>

text \<open>Labels of \<open>WindowConfig.env_vars\<close> (lines 193-195): "domain", "mailbox", "password".\<close>

definition label_domain :: str where
  "label_domain = [0x57DF, 0x540D]"

definition label_email :: str where
  "label_email = [0x90AE, 0x7BB1]"

definition label_password :: str where
  "label_password = [0x5BC6, 0x7801]"

text \<open>Line 280: "saving the environment variables failed".\<close>

definition msg_save_env_failed :: str where
  "msg_save_env_failed = [0x4FDD, 0x5B58, 0x73AF, 0x5883, 0x53D8, 0x91CF, 0x5931, 0x8D25]"

text \<open>Line 285: ".env file not found: ", followed by the path.\<close>

definition msg_env_not_found :: str where
  "msg_env_not_found = [0x672A, 0x627E, 0x5230] @ py ''.env'' @ [0x6587, 0x4EF6] @ py '': ''"

text \<open>Line 289: "backing up the file failed".\<close>

definition msg_backup_failed :: str where
  "msg_backup_failed = [0x5907, 0x4EFD, 0x6587, 0x4EF6, 0x5931, 0x8D25]"

text \<open>Line 297: "saving the domain failed".\<close>

definition msg_save_domain_failed :: str where
  "msg_save_domain_failed = [0x4FDD, 0x5B58, 0x57DF, 0x540D, 0x5931, 0x8D25]"

text \<open>Line 308: "account generated successfully".\<close>

definition msg_account_generated :: str where
  "msg_account_generated = [0x8D26, 0x53F7, 0x751F, 0x6210, 0x6210, 0x529F]"

text \<open>Line 322: "please enter the cookie string".\<close>

definition msg_enter_cookie :: str where
  "msg_enter_cookie = [0x8BF7, 0x8F93, 0x5165] @ py ''Cookie'' @ [0x5B57, 0x7B26, 0x4E32]"

text \<open>Line 326: "the cookie string is malformed, it must contain WorkosCursorSessionToken".\<close>

definition msg_cookie_format :: str where
  "msg_cookie_format =
     py ''Cookie'' @
     [0x5B57, 0x7B26, 0x4E32, 0x683C, 0x5F0F, 0x4E0D, 0x6B63, 0x786E, 0xFF0C, 0x5FC5, 0x987B,
      0x5305, 0x542B] @
     py '' WorkosCursorSessionToken''"

text \<open>Line 377: "click the button in the browser, then click continue...".\<close>

definition msg_click_button :: str where
  "msg_click_button =
     [0x8BF7, 0x5728, 0x6D4F, 0x89C8, 0x5668, 0x4E2D, 0x70B9, 0x51FB, 0x6309, 0x94AE, 0xFF0C,
      0x5B8C, 0x6210, 0x540E, 0x70B9, 0x51FB, 0x7EE7, 0x7EED] @ py ''...''"

text \<open>Line 379: "finish the registration and the captcha in the browser, then click continue...".\<close>

definition msg_finish_captcha :: str where
  "msg_finish_captcha =
     [0x8BF7, 0x5728, 0x6D4F, 0x89C8, 0x5668, 0x4E2D, 0x5B8C, 0x6210, 0x6CE8, 0x518C, 0x548C,
      0x9A8C, 0x8BC1, 0x7801, 0x9A8C, 0x8BC1, 0xFF0C, 0x5B8C, 0x6210, 0x540E, 0x70B9, 0x51FB,
      0x7EE7, 0x7EED] @ py ''...''"

text \<open>Line 386: "automatic registration succeeded, the token has been filled in".\<close>

definition msg_auto_register_ok :: str where
  "msg_auto_register_ok =
     [0x81EA, 0x52A8, 0x6CE8, 0x518C, 0x6210, 0x529F, 0xFF0C] @ py ''Token'' @
     [0x5DF2, 0x586B, 0x5165]"

text \<open>Line 388: "getting the token failed".\<close>

definition msg_token_failed :: str where
  "msg_token_failed = [0x83B7, 0x53D6] @ py ''Token'' @ [0x5931, 0x8D25]"

section \<open>\<open>WindowConfig\<close>\<close>

definition backup_dir :: str where
  "backup_dir = py ''env_backups''"

definition max_backups :: nat where
  "max_backups = 10"

definition env_vars :: "(str \<times> str) list" where
  "env_vars =
     [(py ''DOMAIN'', label_domain), (py ''EMAIL'', label_email),
      (py ''PASSWORD'', label_password)]"

section \<open>Results of the external operations\<close>

text \<open>
  Modelled from the spec: class \<open>Result\<close> of \<open>cursor_utils\<close> is not among the sources. The
  spec's Result Envelope has a success flag, an optional payload (a tuple of strings or a
  string) and a message; \<open>main.py\<close> reads the attributes \<open>data\<close> and \<open>message\<close> and tests the
  envelope's truth value, which is its success flag.
\<close>

datatype payload = NoData | StrData str | TupleData "str list"

record Result =
  success :: bool
  data :: payload
  message :: str

text \<open>
  What \<open>generate_cursor_account()\<close> may return: an envelope, or the legacy plain tuple that
  line 303 still accepts.
\<close>

datatype returned = Envelope Result | PlainTuple "str list"

text \<open>
  Exceptions. \<open>Exception\<close> and \<open>RuntimeError\<close> carry the message they are raised with; the
  three others are raised by the interpreter at line 301 (\<open>.message\<close> of a tuple) and at
  line 303 (unpacking).
\<close>

datatype exn = Exception str | RuntimeError str | AttributeError | TypeError | ValueError

section \<open>The world a workflow runs in\<close>

text \<open>Every effect of a workflow is recorded as an event, in the order the code performs it.\<close>

datatype event =
    BackupFile bool
  | UpdateEnvVars "(str \<times> str) list" bool
  | LoadDotenv
  | GenerateCursorAccount
  | Reset
  | ProcessCookies str
  | EntryDelete str
  | EntryInsert str str
  | ShowSuccess str
  | ShowWarning str
  | ShowError exn
  | NewRegistration
  | InitBrowser
  | FillRegistrationForm
  | WaitForUser str
  | FillPassword
  | GetUserInfo
  | GetCursorToken
  | BrowserQuit

text \<open>
  \<open>entries\<close> is the dictionary \<open>self.entries\<close> (the text of each entry widget); \<open>setup_ui\<close>
  creates the keys DOMAIN, EMAIL, PASSWORD and cookie before any button exists, so a lookup
  never raises and the dictionary is a total function. \<open>env_file\<close> is the content of the
  backing file (\<open>None\<close>: the file does not exist), \<open>backups\<close> the backup directory with the
  newest copy first, \<open>environ\<close> is \<open>os.environ\<close>, and \<open>browser\<close> says whether
  \<open>registrar.browser\<close> is set.
\<close>

record world =
  entries :: "str \<Rightarrow> str"
  env_file :: "(str \<rightharpoonup> str) option"
  backups :: "(str \<rightharpoonup> str) list"
  environ :: "str \<rightharpoonup> str"
  browser :: bool
  trace :: "event list"

text \<open>
  The collaborators that are not part of \<open>main.py\<close>, as parameters: what each of them
  answers in the invocation at hand. Every operation is called at most once in an
  invocation, except \<open>Utils.update_env_vars\<close>, whose answer may therefore depend on the
  history. An operation that can raise answers \<open>Inl\<close> (or \<open>Some\<close>) of the exception.
  \<open>init_browser\<close> also says whether it has set \<open>registrar.browser\<close>; no other method of
  the registration object changes that attribute. What the external operations do to the
  file system on their own is outside \<open>main.py\<close> and is not part of the world.
\<close>

record ext =
  env_path :: str
  backup_ok :: bool
  update_ok :: "event list \<Rightarrow> (str \<times> str) list \<Rightarrow> bool"
  generate_cursor_account :: "exn + returned"
  reset :: "exn + Result"
  process_cookies :: "str \<Rightarrow> exn + Result"
  new_registration :: "exn option"
  init_browser :: "bool \<times> exn option"
  fill_registration_form :: "exn option"
  fill_password :: "exn option"
  get_user_info :: "exn option"
  get_cursor_token :: "exn + str option"
  browser_quit :: "exn option"

type_synonym 'a action = "world \<Rightarrow> (exn + 'a) \<times> world"

definition emit :: "event \<Rightarrow> world \<Rightarrow> world" where
  "emit e w = w\<lparr>trace := trace w @ [e]\<rparr>"

text \<open>Sequencing: an exception skips the rest.\<close>

definition and_then :: "'a action \<Rightarrow> ('a \<Rightarrow> 'b action) \<Rightarrow> 'b action" where
  "and_then m f w = (case m w of (Inl e, w') \<Rightarrow> (Inl e, w') | (Inr x, w') \<Rightarrow> f x w')"

text \<open>
  \<open>try: body finally: cleanup\<close>. The cleanup always runs; an exception of the cleanup
  replaces the outcome of the body.
\<close>

definition try_finally :: "'a action \<Rightarrow> unit action \<Rightarrow> 'a action" where
  "try_finally body cleanup w =
     (case body w of (r, w1) \<Rightarrow>
        (case cleanup w1 of (Inl e, w2) \<Rightarrow> (Inl e, w2) | (Inr _, w2) \<Rightarrow> (r, w2)))"

section \<open>\<open>UI\<close> and the entry widgets\<close>

definition show_success :: "str \<Rightarrow> world \<Rightarrow> world" where
  "show_success m = emit (ShowSuccess m)"

definition show_warning :: "str \<Rightarrow> world \<Rightarrow> world" where
  "show_warning m = emit (ShowWarning m)"

text \<open>\<open>entry.delete(0, tk.END)\<close> and \<open>entry.insert(0, value)\<close>.\<close>

definition entry_delete :: "str \<Rightarrow> world \<Rightarrow> world" where
  "entry_delete k w = emit (EntryDelete k) (w\<lparr>entries := (entries w)(k := [])\<rparr>)"

definition entry_insert :: "str \<Rightarrow> str \<Rightarrow> world \<Rightarrow> world" where
  "entry_insert k v w = emit (EntryInsert k v) (w\<lparr>entries := (entries w)(k := v @ entries w k)\<rparr>)"

text \<open>
  \<open>setup_ui\<close>, lines 233-242: an entry per recognised variable, filled from the environment
  when the variable is set and not empty, and the cookie entry with its default text.
\<close>

definition setup_ui :: "(str \<rightharpoonup> str) \<Rightarrow> str \<Rightarrow> str" where
  "setup_ui env =
     (fold (\<lambda>(var_name, label_text) es.
              es(var_name := (case env var_name of None \<Rightarrow> [] | Some v \<Rightarrow> v)))
           env_vars (\<lambda>_. []))
     (py ''cookie'' := py ''WorkosCursorSessionToken'')"

section \<open>\<open>Utils\<close> and \<open>load_dotenv\<close>\<close>

text \<open>
  Modelled from the spec: \<open>Utils.update_env_vars\<close> of \<open>cursor_utils\<close> is not among the
  sources. It merges the updates into the backing file, keeps every other key, and returns
  false without raising when the write fails.
\<close>

definition update_env_vars :: "ext \<Rightarrow> (str \<times> str) list \<Rightarrow> world \<Rightarrow> bool \<times> world" where
  "update_env_vars X updates w =
     (let good = update_ok X (trace w) updates; w' = emit (UpdateEnvVars updates good) w
      in if good
         then (True, w'\<lparr>env_file :=
                 Some ((case env_file w of None \<Rightarrow> Map.empty | Some m \<Rightarrow> m) ++ map_of updates)\<rparr>)
         else (False, w'))"

text \<open>
  Modelled from the spec: \<open>Utils.backup_file\<close> of \<open>cursor_utils\<close> is not among the sources.
  On success it copies the file into the backup directory and deletes the oldest copies
  beyond the cap; it returns false when the source does not exist or the copy fails, and
  the directory is then as it was.
\<close>

definition backup_file :: "ext \<Rightarrow> nat \<Rightarrow> world \<Rightarrow> bool \<times> world" where
  "backup_file X cap w =
     (case env_file w of
        None \<Rightarrow> (False, emit (BackupFile False) w)
      | Some m \<Rightarrow>
          if backup_ok X
          then (True, (emit (BackupFile True) w)\<lparr>backups := take cap (m # backups w)\<rparr>)
          else (False, emit (BackupFile False) w))"

text \<open>
  \<open>load_dotenv(override=True)\<close> of the python-dotenv library: every variable of the file
  replaces the one of the process; nothing happens when there is no file.
\<close>

definition load_dotenv :: "world \<Rightarrow> world" where
  "load_dotenv w =
     emit LoadDotenv
       (w\<lparr>environ := (case env_file w of None \<Rightarrow> environ w | Some m \<Rightarrow> environ w ++ m)\<rparr>)"

text \<open>
  Modelled from the spec: the decorator \<open>error_handler\<close> of \<open>cursor_utils\<close> is not among
  the sources. It is the uniform boundary of every workflow: a failure becomes one
  user-visible error notification carrying the exception, and is not propagated.
\<close>

definition error_handler :: "unit action \<Rightarrow> world \<Rightarrow> world" where
  "error_handler f w = (case f w of (Inl e, w') \<Rightarrow> emit (ShowError e) w' | (Inr _, w') \<Rightarrow> w')"

section \<open>\<open>CursorApp\<close>\<close>

text \<open>The dictionary comprehension of lines 273-277.\<close>

definition visible_updates :: "world \<Rightarrow> (str \<times> str) list" where
  "visible_updates w =
     map (\<lambda>(var_name, label_text). (var_name, strip (strip (entries w var_name))))
       (filter (\<lambda>(var_name, label_text). strip (entries w var_name) \<noteq> []) env_vars)"

text \<open>\<open>_save_env_vars\<close>, lines 271-280. \<open>not updates\<close> holds for \<open>None\<close> and for an empty dictionary.\<close>

definition save_env_vars :: "ext \<Rightarrow> (str \<times> str) list option \<Rightarrow> world \<Rightarrow> world" where
  "save_env_vars X updates w =
     (let updates' = (case updates of None \<Rightarrow> visible_updates w
                      | Some [] \<Rightarrow> visible_updates w
                      | Some (u # us) \<Rightarrow> u # us)
      in if updates' \<noteq> []
         then (case update_env_vars X updates' w of
                 (good, w') \<Rightarrow> if \<not> good then show_warning msg_save_env_failed w' else w')
         else w)"

text \<open>\<open>backup_env_file\<close>, lines 282-289.\<close>

definition backup_env_file :: "ext \<Rightarrow> unit action" where
  "backup_env_file X w =
     (if env_file w = None then (Inl (Exception (msg_env_not_found @ env_path X)), w)
      else (case backup_file X max_backups w of
              (good, w') \<Rightarrow>
                if \<not> good then (Inl (Exception msg_backup_failed), w') else (Inr (), w')))"

text \<open>\<open>update_auth\<close>, lines 318-335: the body, and the body behind its decorator.\<close>

definition update_auth_body :: "ext \<Rightarrow> unit action" where
  "update_auth_body X w =
     (let cookie_str = strip (entries w (py ''cookie''))
      in if cookie_str = [] then (Inr (), show_warning msg_enter_cookie w)
         else if \<not> sublist (py ''WorkosCursorSessionToken='') cookie_str
         then (Inr (), show_warning msg_cookie_format w)
         else and_then (backup_env_file X) (\<lambda>_ w1.
                (case process_cookies X cookie_str of
                   Inl e \<Rightarrow> (Inl e, emit (ProcessCookies cookie_str) w1)
                 | Inr result \<Rightarrow>
                     (let w2 = emit (ProcessCookies cookie_str) w1
                      in if \<not> success result then (Inl (Exception (message result)), w2)
                         else (Inr (),
                               save_env_vars X None
                                 (entry_delete (py ''cookie'')
                                    (show_success (message result) w2)))))) w)"

definition update_auth :: "ext \<Rightarrow> world \<Rightarrow> world" where
  "update_auth X = error_handler (update_auth_body X)"

text \<open>
  \<open>email, password = ...\<close> of line 303 unpacks an iterable of exactly two items; a string of
  two characters unpacks into its characters, \<open>None\<close> is not iterable.
\<close>

definition unpack2 :: "payload \<Rightarrow> exn + str \<times> str" where
  "unpack2 d =
     (case d of
        NoData \<Rightarrow> Inl TypeError
      | StrData s \<Rightarrow> (case s of [a, b] \<Rightarrow> Inr ([a], [b]) | _ \<Rightarrow> Inl ValueError)
      | TupleData xs \<Rightarrow> (case xs of [a, b] \<Rightarrow> Inr (a, b) | _ \<Rightarrow> Inl ValueError))"

text \<open>\<open>result.data if isinstance(result, Result) else result\<close>, unpacked.\<close>

definition credentials :: "returned \<Rightarrow> exn + str \<times> str" where
  "credentials result =
     (case result of Envelope r \<Rightarrow> unpack2 (data r) | PlainTuple xs \<Rightarrow> unpack2 (TupleData xs))"

text \<open>The truth value of what the generator returned: an empty tuple is false.\<close>

definition truthy :: "returned \<Rightarrow> bool" where
  "truthy result = (case result of Envelope r \<Rightarrow> success r | PlainTuple xs \<Rightarrow> xs \<noteq> [])"

text \<open>\<open>generate_account\<close>, lines 291-309, in its three stages.\<close>

definition save_domain :: "ext \<Rightarrow> unit action" where
  "save_domain X w =
     (let domain = strip (entries w (py ''DOMAIN''))
      in if domain \<noteq> []
         then (case update_env_vars X [(py ''DOMAIN'', domain)] w of
                 (good, w') \<Rightarrow>
                   if \<not> good then (Inl (RuntimeError msg_save_domain_failed), w')
                   else (Inr (), load_dotenv w'))
         else (Inr (), w))"

definition call_generate :: "ext \<Rightarrow> returned action" where
  "call_generate X w =
     (case generate_cursor_account X of
        Inl e \<Rightarrow> (Inl e, emit GenerateCursorAccount w)
      | Inr result \<Rightarrow>
          if \<not> truthy result
          then (Inl (case result of Envelope r \<Rightarrow> RuntimeError (message r)
                     | PlainTuple xs \<Rightarrow> AttributeError),
                emit GenerateCursorAccount w)
          else (Inr result, emit GenerateCursorAccount w))"

definition fill_credentials :: "str \<Rightarrow> str \<Rightarrow> world \<Rightarrow> world" where
  "fill_credentials email password w =
     entry_insert (py ''PASSWORD'') password (entry_delete (py ''PASSWORD'')
       (entry_insert (py ''EMAIL'') email (entry_delete (py ''EMAIL'') w)))"

definition generate_account_body :: "ext \<Rightarrow> unit action" where
  "generate_account_body X =
     and_then (backup_env_file X) (\<lambda>_.
     and_then (save_domain X) (\<lambda>_.
     and_then (call_generate X) (\<lambda>result w.
       (case credentials result of
          Inl e \<Rightarrow> (Inl e, w)
        | Inr (email, password) \<Rightarrow>
            (Inr (),
             save_env_vars X None
               (show_success msg_account_generated (fill_credentials email password w)))))))"

definition generate_account :: "ext \<Rightarrow> world \<Rightarrow> world" where
  "generate_account X = error_handler (generate_account_body X)"

text \<open>\<open>reset_ID\<close>, lines 311-316.\<close>

definition reset_ID_body :: "ext \<Rightarrow> unit action" where
  "reset_ID_body X w =
     (case reset X of
        Inl e \<Rightarrow> (Inl e, emit Reset w)
      | Inr result \<Rightarrow>
          (let w1 = emit Reset w
           in if \<not> success result then (Inl (Exception (message result)), w1)
              else (Inr (), save_env_vars X None (show_success (message result) w1))))"

definition reset_ID :: "ext \<Rightarrow> world \<Rightarrow> world" where
  "reset_ID X = error_handler (reset_ID_body X)"

text \<open>
  \<open>auto_register\<close>, lines 337-391. A method of the registration object is an event and
  then its answer; \<open>wait_for_user\<close> returns when the user has clicked.
\<close>

definition step :: "event \<Rightarrow> exn option \<Rightarrow> unit action" where
  "step ev answer w = (case answer of Some e \<Rightarrow> (Inl e, emit ev w) | None \<Rightarrow> (Inr (), emit ev w))"

definition wait_for_user :: "str \<Rightarrow> unit action" where
  "wait_for_user m w = (Inr (), emit (WaitForUser m) w)"

text \<open>
  Modelled from the spec: class \<open>CursorRegistration\<close> of \<open>cursor_registerAc\<close> is not among
  the sources. A new registration object has no browser; \<open>init_browser\<close> creates it.
\<close>

definition registration :: "ext \<Rightarrow> unit action" where
  "registration X w = step NewRegistration (new_registration X) (w\<lparr>browser := False\<rparr>)"

definition registrar_init_browser :: "ext \<Rightarrow> unit action" where
  "registrar_init_browser X w =
     step InitBrowser (snd (init_browser X)) (w\<lparr>browser := fst (init_browser X)\<rparr>)"

definition registrar_get_cursor_token :: "ext \<Rightarrow> str option action" where
  "registrar_get_cursor_token X w =
     (case get_cursor_token X of
        Inl e \<Rightarrow> (Inl e, emit GetCursorToken w)
      | Inr token \<Rightarrow> (Inr token, emit GetCursorToken w))"

text \<open>Lines 383-388; \<open>None\<close> and the empty string are false.\<close>

definition report_token :: "str option \<Rightarrow> unit action" where
  "report_token token w =
     (case token of
        None \<Rightarrow> (Inr (), show_warning msg_token_failed w)
      | Some t \<Rightarrow>
          if t \<noteq> []
          then (Inr (),
                show_success msg_auto_register_ok
                  (entry_insert (py ''cookie'') (py ''WorkosCursorSessionToken='' @ t)
                     (entry_delete (py ''cookie'') w)))
          else (Inr (), show_warning msg_token_failed w))"

text \<open>The body of the \<open>try\<close>, lines 375-388.\<close>

definition sequencer :: "ext \<Rightarrow> unit action" where
  "sequencer X =
     and_then (registrar_init_browser X) (\<lambda>_.
     and_then (step FillRegistrationForm (fill_registration_form X)) (\<lambda>_.
     and_then (wait_for_user msg_click_button) (\<lambda>_.
     and_then (step FillPassword (fill_password X)) (\<lambda>_.
     and_then (wait_for_user msg_finish_captcha) (\<lambda>_.
     and_then (step GetUserInfo (get_user_info X)) (\<lambda>_.
     and_then (registrar_get_cursor_token X) report_token))))))"

text \<open>The \<open>finally\<close>, lines 390-391.\<close>

definition teardown :: "ext \<Rightarrow> unit action" where
  "teardown X w = (if browser w then step BrowserQuit (browser_quit X) w else (Inr (), w))"

definition auto_register_body :: "ext \<Rightarrow> unit action" where
  "auto_register_body X w =
     and_then (registration X) (\<lambda>_. try_finally (sequencer X) (teardown X))
       (load_dotenv (save_env_vars X None w))"

definition auto_register :: "ext \<Rightarrow> world \<Rightarrow> world" where
  "auto_register X = error_handler (auto_register_body X)"

section \<open>Observations on a run\<close>

text \<open>The events an invocation has added to the history.\<close>

definition new_events :: "world \<Rightarrow> world \<Rightarrow> event list" where
  "new_events w w' = drop (length (trace w)) (trace w')"

text \<open>The value the backing file has for a key.\<close>

definition stored :: "world \<Rightarrow> str \<Rightarrow> str option" where
  "stored w k = (case env_file w of None \<Rightarrow> None | Some m \<Rightarrow> m k)"

text \<open>
  \<open>writes_backed b es\<close>: every call of \<open>Utils.update_env_vars\<close> in \<open>es\<close> comes after a
  successful backup, where \<open>b\<close> says whether one has happened before \<open>es\<close>.
\<close>

fun writes_backed :: "bool \<Rightarrow> event list \<Rightarrow> bool" where
  "writes_backed b [] = True"
| "writes_backed b (BackupFile good # es) = writes_backed (b \<or> good) es"
| "writes_backed b (UpdateEnvVars updates good # es) = (b \<and> writes_backed b es)"
| "writes_backed b (e # es) = writes_backed b es"

text \<open>The events of \<open>_save_env_vars()\<close> in a world.\<close>

definition save_events :: "ext \<Rightarrow> world \<Rightarrow> event list" where
  "save_events X w =
     (if visible_updates w = [] then []
      else if update_ok X (trace w) (visible_updates w) then [UpdateEnvVars (visible_updates w) True]
      else [UpdateEnvVars (visible_updates w) False, ShowWarning msg_save_env_failed])"

text \<open>The steps of the sequencer, and the order the spec gives them.\<close>

fun is_step :: "event \<Rightarrow> bool" where
  "is_step InitBrowser = True"
| "is_step FillRegistrationForm = True"
| "is_step (WaitForUser m) = True"
| "is_step FillPassword = True"
| "is_step GetUserInfo = True"
| "is_step GetCursorToken = True"
| "is_step e = False"

definition sequencer_steps :: "event list" where
  "sequencer_steps =
     [InitBrowser, FillRegistrationForm, WaitForUser msg_click_button, FillPassword,
      WaitForUser msg_finish_captcha, GetUserInfo, GetCursorToken]"

section \<open>Sample worlds\<close>

text \<open>A world with an empty backing file and the entries \<open>setup_ui\<close> creates in an empty environment.\<close>

definition fresh_world :: world where
  "fresh_world =
     \<lparr>entries = setup_ui Map.empty, env_file = Some Map.empty, backups = [],
      environ = Map.empty, browser = False, trace = []\<rparr>"

text \<open>Collaborators that all succeed; the generator answers with an envelope.\<close>

definition kind_ext :: ext where
  "kind_ext =
     \<lparr>env_path = py ''.env'', backup_ok = True, update_ok = (\<lambda>history updates. True),
      generate_cursor_account =
        Inr (Envelope \<lparr>success = True, data = TupleData [py ''a@b.c'', py ''pw''],
                       message = py ''ok''\<rparr>),
      reset = Inr \<lparr>success = True, data = NoData, message = py ''ID reset''\<rparr>,
      process_cookies = (\<lambda>c. Inr \<lparr>success = True, data = NoData, message = py ''updated''\<rparr>),
      new_registration = None, init_browser = (True, None), fill_registration_form = None,
      fill_password = None, get_user_info = None, get_cursor_token = Inr (Some (py ''tok'')),
      browser_quit = None\<rparr>"

text \<open>The same world after the user has typed an address into the EMAIL entry.\<close>

definition email_world :: world where
  "email_world = fresh_world\<lparr>entries := (entries fresh_world)(py ''EMAIL'' := py '' a@b.c '')\<rparr>"

text \<open>A cookie entry without the token name.\<close>

definition foreign_cookie_world :: world where
  "foreign_cookie_world =
     fresh_world\<lparr>entries := (entries fresh_world)(py ''cookie'' := py ''session=abc'')\<rparr>"

text \<open>A well-formed cookie typed as well, and the same world without a backing file.\<close>

definition cookie_world :: world where
  "cookie_world =
     email_world\<lparr>entries :=
       (entries email_world)(py ''cookie'' := py ''WorkosCursorSessionToken=abc123'')\<rparr>"

definition missing_file_world :: world where
  "missing_file_world = cookie_world\<lparr>env_file := None\<rparr>"

text \<open>A domain typed into the DOMAIN entry.\<close>

definition domain_world :: world where
  "domain_world =
     fresh_world\<lparr>entries := (entries fresh_world)(py ''DOMAIN'' := py ''example.com'')\<rparr>"

text \<open>A generator that fails, one that answers with a plain tuple, and a browser without a token.\<close>

definition quota_ext :: ext where
  "quota_ext =
     kind_ext\<lparr>generate_cursor_account :=
       Inr (Envelope \<lparr>success = False, data = NoData, message = py ''quota exceeded''\<rparr>)\<rparr>"

definition legacy_ext :: ext where
  "legacy_ext = kind_ext\<lparr>generate_cursor_account := Inr (PlainTuple [py ''a@b.c'', py ''pw''])\<rparr>"

definition tokenless_ext :: ext where
  "tokenless_ext = kind_ext\<lparr>get_cursor_token := Inr (Some [])\<rparr>"

text \<open>A browser in which filling in the password fails.\<close>

definition stuck_ext :: ext where
  "stuck_ext = kind_ext\<lparr>fill_password := Some (Exception (py ''timeout''))\<rparr>"

section \<open>Strings\<close>

lemma py_eq_iff [simp]: "py a = py b \<longleftrightarrow> a = b"
  by (simp add: py_def inj_map_eq_map inj_of_char)

lemma py_Nil [simp]: "py [] = []" "py a = [] \<longleftrightarrow> a = []"
  by (simp_all add: py_def)

lemma dropWhile_strip: "dropWhile isspace (strip s) = strip s"
proof (cases "dropWhile isspace s")
  case Nil
  show ?thesis unfolding strip_def Nil by simp
next
  case (Cons x t)
  have "\<not> isspace x"
    using Cons hd_dropWhile [of isspace s] by simp
  then show ?thesis using Cons by (auto simp: strip_def dropWhile_append)
qed

lemma strip_strip [simp]: "strip (strip s) = strip s"
proof -
  have "strip (strip s) = rev (dropWhile isspace (rev (dropWhile isspace (strip s))))"
    by (simp add: strip_def)
  also have "\<dots> = rev (dropWhile isspace (rev (strip s)))"
    by (simp add: dropWhile_strip)
  also have "\<dots> = strip s"
    by (simp add: strip_def dropWhile_idem)
  finally show ?thesis .
qed

lemma sublist_strip_self: "sublist (strip c) c"
proof -
  have "sublist (dropWhile isspace (rev (dropWhile isspace c))) (rev (dropWhile isspace c))"
    by (rule sublist_dropWhile)
  then have "sublist (strip c) (dropWhile isspace c)"
    unfolding strip_def by (simp add: sublist_rev_left)
  moreover have "sublist (dropWhile isspace c) c" by (rule sublist_dropWhile)
  ultimately show ?thesis by (rule sublist_order.order.trans)
qed

lemma sublist_strip: "sublist x (strip c) \<Longrightarrow> sublist x c"
  using sublist_order.order.trans [OF _ sublist_strip_self] .

lemma sublist_appendD: "sublist (a @ b) c \<Longrightarrow> sublist a c"
  by (auto simp: sublist_def)

section \<open>The world operations\<close>

lemma emit_simps [simp]:
  "trace (emit e w) = trace w @ [e]" "entries (emit e w) = entries w"
  "env_file (emit e w) = env_file w" "backups (emit e w) = backups w"
  "environ (emit e w) = environ w" "browser (emit e w) = browser w"
  by (simp_all add: emit_def)

lemma stored_emit [simp]: "stored (emit e w) k = stored w k"
  by (simp add: stored_def)

lemma new_events_append [simp]: "trace w' = trace w @ es \<Longrightarrow> new_events w w' = es"
  by (simp add: new_events_def)

lemma update_env_vars_simps:
  "fst (update_env_vars X u w) = update_ok X (trace w) u"
  "trace (snd (update_env_vars X u w)) = trace w @ [UpdateEnvVars u (update_ok X (trace w) u)]"
  "entries (snd (update_env_vars X u w)) = entries w"
  "backups (snd (update_env_vars X u w)) = backups w"
  "browser (snd (update_env_vars X u w)) = browser w"
  "environ (snd (update_env_vars X u w)) = environ w"
  "stored (snd (update_env_vars X u w)) k =
     (if update_ok X (trace w) u then (case map_of u k of Some v \<Rightarrow> Some v | None \<Rightarrow> stored w k)
      else stored w k)"
  by (simp_all add: update_env_vars_def Let_def stored_def map_add_def split: option.splits)

lemma visible_updates_keys:
  "map fst (visible_updates w) =
     filter (\<lambda>k. strip (entries w k) \<noteq> []) [py ''DOMAIN'', py ''EMAIL'', py ''PASSWORD'']"
  by (simp add: visible_updates_def env_vars_def)

lemma visible_updates_values:
  "(k, v) \<in> set (visible_updates w) \<Longrightarrow> v = strip (entries w k)"
  by (auto simp: visible_updates_def)

lemma map_of_visible_updates:
  "map_of (visible_updates w) k =
     (if k \<in> {py ''DOMAIN'', py ''EMAIL'', py ''PASSWORD''} \<and> strip (entries w k) \<noteq> []
      then Some (strip (entries w k)) else None)"
  by (simp add: visible_updates_def env_vars_def)

lemma visible_updates_cong:
  "(\<And>k. k \<in> {py ''DOMAIN'', py ''EMAIL'', py ''PASSWORD''} \<Longrightarrow> entries w' k = entries w k)
   \<Longrightarrow> visible_updates w' = visible_updates w"
  by (simp add: visible_updates_def env_vars_def)

lemma save_env_vars_None:
  "save_env_vars X None w =
     (if visible_updates w = [] then w
      else if update_ok X (trace w) (visible_updates w) then snd (update_env_vars X (visible_updates w) w)
      else show_warning msg_save_env_failed (snd (update_env_vars X (visible_updates w) w)))"
  by (simp add: save_env_vars_def Let_def update_env_vars_def)

lemma save_env_vars_simps:
  "trace (save_env_vars X None w) = trace w @ save_events X w"
  "entries (save_env_vars X None w) = entries w"
  "backups (save_env_vars X None w) = backups w"
  "browser (save_env_vars X None w) = browser w"
  by (simp_all add: save_env_vars_None save_events_def show_warning_def update_env_vars_simps)

lemma show_simps [simp]:
  "trace (show_warning m w) = trace w @ [ShowWarning m]"
  "trace (show_success m w) = trace w @ [ShowSuccess m]"
  "entries (show_warning m w) = entries w" "entries (show_success m w) = entries w"
  "env_file (show_warning m w) = env_file w" "env_file (show_success m w) = env_file w"
  "backups (show_warning m w) = backups w" "backups (show_success m w) = backups w"
  "browser (show_warning m w) = browser w" "browser (show_success m w) = browser w"
  by (simp_all add: show_warning_def show_success_def)

lemma backup_env_file_missing:
  "env_file w = None \<Longrightarrow>
   backup_env_file X w = (Inl (Exception (msg_env_not_found @ env_path X)), w)"
  by (simp add: backup_env_file_def)

lemma backup_env_file_done:
  "env_file w = Some m \<Longrightarrow> backup_ok X \<Longrightarrow>
   backup_env_file X w =
     (Inr (), (emit (BackupFile True) w)\<lparr>backups := take max_backups (m # backups w)\<rparr>)"
  by (simp add: backup_env_file_def backup_file_def)

lemma backup_env_file_failed:
  "env_file w = Some m \<Longrightarrow> \<not> backup_ok X \<Longrightarrow>
   backup_env_file X w = (Inl (Exception msg_backup_failed), emit (BackupFile False) w)"
  by (simp add: backup_env_file_def backup_file_def)

lemma update_auth_body_rejects:
  "strip (entries w (py ''cookie'')) = [] \<or>
   \<not> sublist (py ''WorkosCursorSessionToken='') (strip (entries w (py ''cookie''))) \<Longrightarrow>
   update_auth_body X w =
     (Inr (), w\<lparr>trace := trace w @
        [ShowWarning (if strip (entries w (py ''cookie'')) = [] then msg_enter_cookie
                      else msg_cookie_format)]\<rparr>)"
  by (auto simp: update_auth_body_def Let_def show_warning_def emit_def)

lemma token_name_prefix:
  "py ''WorkosCursorSessionToken='' = py ''WorkosCursorSessionToken'' @ py ''=''"
  by (simp add: py_def)

lemma sublist_token_name:
  "sublist (py ''WorkosCursorSessionToken='') c \<Longrightarrow> sublist (py ''WorkosCursorSessionToken'') c"
  unfolding token_name_prefix by (rule sublist_appendD)

lemma entry_simps [simp]:
  "trace (entry_delete k w) = trace w @ [EntryDelete k]"
  "trace (entry_insert k v w) = trace w @ [EntryInsert k v]"
  "entries (entry_delete k w) = (entries w)(k := [])"
  "entries (entry_insert k v w) = (entries w)(k := v @ entries w k)"
  "env_file (entry_delete k w) = env_file w" "env_file (entry_insert k v w) = env_file w"
  "backups (entry_delete k w) = backups w" "backups (entry_insert k v w) = backups w"
  "browser (entry_delete k w) = browser w" "browser (entry_insert k v w) = browser w"
  by (simp_all add: entry_delete_def entry_insert_def)

lemma load_dotenv_simps [simp]:
  "trace (load_dotenv w) = trace w @ [LoadDotenv]"
  "entries (load_dotenv w) = entries w"
  "env_file (load_dotenv w) = env_file w"
  "backups (load_dotenv w) = backups w"
  "browser (load_dotenv w) = browser w"
  by (simp_all add: load_dotenv_def)

lemma stored_simps [simp]:
  "stored (show_warning m w) k = stored w k" "stored (show_success m w) k = stored w k"
  "stored (entry_delete a w) k = stored w k" "stored (entry_insert a v w) k = stored w k"
  "stored (load_dotenv w) k = stored w k"
  by (simp_all add: stored_def)

lemma stored_save_env_vars:
  "stored (save_env_vars X None w) k =
     (if update_ok X (trace w) (visible_updates w) \<and>
         k \<in> {py ''DOMAIN'', py ''EMAIL'', py ''PASSWORD''} \<and> strip (entries w k) \<noteq> []
      then Some (strip (entries w k)) else stored w k)"
  using map_of_visible_updates [of w k]
  by (auto simp: save_env_vars_None update_env_vars_simps)

section \<open>Persisting the visible fields\<close>

text \<open>
  Claim C9. Called without an update mapping, \<open>_save_env_vars\<close> builds the update from
  exactly those of DOMAIN, EMAIL and PASSWORD whose entry is not empty after stripping, with
  the stripped text as value, and writes that update once. A key whose entry is empty is
  not written, so the value the backing file has for it stays; when all three entries are
  empty the world is left as it was: no write is attempted and no warning is shown.
\<close>

theorem save_env_vars_visible_fields:
  "map fst (visible_updates w) =
     filter (\<lambda>k. strip (entries w k) \<noteq> []) [py ''DOMAIN'', py ''EMAIL'', py ''PASSWORD''] \<and>
   (\<forall>(k, v) \<in> set (visible_updates w). v = strip (entries w k)) \<and>
   new_events w (save_env_vars X None w) =
     (if visible_updates w = [] then []
      else if update_ok X (trace w) (visible_updates w) then [UpdateEnvVars (visible_updates w) True]
      else [UpdateEnvVars (visible_updates w) False, ShowWarning msg_save_env_failed]) \<and>
   (strip (entries w k) = [] \<longrightarrow> stored (save_env_vars X None w) k = stored w k) \<and>
   ((\<forall>k \<in> {py ''DOMAIN'', py ''EMAIL'', py ''PASSWORD''}. strip (entries w k) = []) \<longrightarrow>
      save_env_vars X None w = w)"
proof -
  have keys: "map fst (visible_updates w) =
     filter (\<lambda>k. strip (entries w k) \<noteq> []) [py ''DOMAIN'', py ''EMAIL'', py ''PASSWORD'']"
    by (rule visible_updates_keys)
  have vals: "\<forall>(k, v) \<in> set (visible_updates w). v = strip (entries w k)"
    using visible_updates_values by blast
  have evs: "new_events w (save_env_vars X None w) =
     (if visible_updates w = [] then []
      else if update_ok X (trace w) (visible_updates w) then [UpdateEnvVars (visible_updates w) True]
      else [UpdateEnvVars (visible_updates w) False, ShowWarning msg_save_env_failed])"
    using save_env_vars_simps(1) [of X w] by (simp add: save_events_def)
  have kept: "stored (save_env_vars X None w) k = stored w k" if "strip (entries w k) = []"
    using that
    by (simp add: save_env_vars_None update_env_vars_simps map_of_visible_updates
          show_warning_def)
  have none: "save_env_vars X None w = w"
    if "\<forall>k \<in> {py ''DOMAIN'', py ''EMAIL'', py ''PASSWORD''}. strip (entries w k) = []"
  proof -
    have "map fst (visible_updates w) = []" using that by (simp add: keys)
    then show ?thesis by (simp add: save_env_vars_None)
  qed
  show ?thesis using keys vals evs kept none by blast
qed

theorem save_env_vars_visible_fields_witness:
  "strip (entries email_world (py ''DOMAIN'')) = [] \<and>
   stored (save_env_vars kind_ext None email_world) (py ''DOMAIN'') =
     stored email_world (py ''DOMAIN'') \<and>
   map fst (visible_updates email_world) = [py ''EMAIL''] \<and>
   strip (entries fresh_world (py ''DOMAIN'')) = [] \<and>
   strip (entries fresh_world (py ''EMAIL'')) = [] \<and>
   strip (entries fresh_world (py ''PASSWORD'')) = [] \<and>
   save_env_vars kind_ext None fresh_world = fresh_world"
proof -
  have h1: "strip (entries email_world (py ''DOMAIN'')) = []"
    by (simp add: email_world_def fresh_world_def setup_ui_def env_vars_def strip_def)
  have h2: "\<forall>k \<in> {py ''DOMAIN'', py ''EMAIL'', py ''PASSWORD''}. strip (entries fresh_world k) = []"
    by (simp add: fresh_world_def setup_ui_def env_vars_def strip_def)
  have e: "strip (entries email_world (py ''EMAIL'')) \<noteq> []"
    by (simp add: email_world_def py_def strip_def isspace_def)
  have p: "strip (entries email_world (py ''PASSWORD'')) = []"
    by (simp add: email_world_def fresh_world_def setup_ui_def env_vars_def strip_def)
  note c9 = save_env_vars_visible_fields [of email_world kind_ext "py ''DOMAIN''"]
  have c1: "stored (save_env_vars kind_ext None email_world) (py ''DOMAIN'') =
     stored email_world (py ''DOMAIN'')"
    using c9 h1 by blast
  have c2: "map fst (visible_updates email_world) = [py ''EMAIL'']"
    using c9 h1 e p by simp
  have c3: "save_env_vars kind_ext None fresh_world = fresh_world"
    using save_env_vars_visible_fields [of fresh_world kind_ext "py ''DOMAIN''"] h2 by blast
  show ?thesis using h1 h2 c1 c2 c3 by simp
qed

section \<open>Update Auth\<close>

text \<open>
  Claim C2. When the cookie entry is empty after stripping, or does not contain the token
  name \<open>WorkosCursorSessionToken\<close>, Update Auth shows one warning and returns: the only
  change of the world is that warning in the history, so there is no backup, no call of
  the cookie-processing operation, and the entries, the backing file and the backup
  directory are as before.
\<close>

theorem update_auth_invalid_cookie_no_effect:
  assumes "strip (entries w (py ''cookie'')) = [] \<or>
           \<not> sublist (py ''WorkosCursorSessionToken'') (entries w (py ''cookie''))"
  shows "update_auth_body X w =
           (Inr (), w\<lparr>trace := trace w @
              [ShowWarning (if strip (entries w (py ''cookie'')) = [] then msg_enter_cookie
                            else msg_cookie_format)]\<rparr>) \<and>
         update_auth X w =
           w\<lparr>trace := trace w @
              [ShowWarning (if strip (entries w (py ''cookie'')) = [] then msg_enter_cookie
                            else msg_cookie_format)]\<rparr> \<and>
         entries (update_auth X w) = entries w \<and>
         env_file (update_auth X w) = env_file w \<and>
         backups (update_auth X w) = backups w"
proof -
  have "strip (entries w (py ''cookie'')) = [] \<or>
        \<not> sublist (py ''WorkosCursorSessionToken='') (strip (entries w (py ''cookie'')))"
    using assms sublist_token_name sublist_strip by blast
  then have body: "update_auth_body X w =
           (Inr (), w\<lparr>trace := trace w @
              [ShowWarning (if strip (entries w (py ''cookie'')) = [] then msg_enter_cookie
                            else msg_cookie_format)]\<rparr>)"
    by (rule update_auth_body_rejects)
  then show ?thesis by (simp add: update_auth_def error_handler_def)
qed

theorem update_auth_invalid_cookie_no_effect_witness:
  "\<not> sublist (py ''WorkosCursorSessionToken'') (entries foreign_cookie_world (py ''cookie'')) \<and>
   update_auth kind_ext foreign_cookie_world =
     foreign_cookie_world\<lparr>trace := [ShowWarning msg_cookie_format]\<rparr> \<and>
   backups (update_auth kind_ext foreign_cookie_world) = []"
proof -
  have c: "entries foreign_cookie_world (py ''cookie'') = py ''session=abc''"
    by (simp add: foreign_cookie_world_def)
  have h: "\<not> sublist (py ''WorkosCursorSessionToken'') (entries foreign_cookie_world (py ''cookie''))"
    unfolding c by (simp add: py_def sublist_Cons_right)
  have s: "strip (entries foreign_cookie_world (py ''cookie'')) \<noteq> []"
    unfolding c by (simp add: py_def strip_def isspace_def)
  have t: "trace foreign_cookie_world = []" "backups foreign_cookie_world = []"
    by (simp_all add: foreign_cookie_world_def fresh_world_def)
  show ?thesis
    using update_auth_invalid_cookie_no_effect [of foreign_cookie_world kind_ext] h s t by simp
qed

text \<open>
  Claim C10. Update Auth rejects a cookie exactly when it is empty after stripping or lacks
  the substring \<open>WorkosCursorSessionToken=\<close>, the token name followed by an equals sign.
  Containing that substring implies containing the token name, and not the other way
  round: the default text of the cookie entry, \<open>WorkosCursorSessionToken\<close>, contains the
  name and is rejected with the format warning, which is the only change of the world.
\<close>

theorem update_auth_requires_token_equals:
  "((\<exists>m. update_auth X w = w\<lparr>trace := trace w @ [ShowWarning m]\<rparr>) \<longleftrightarrow>
      strip (entries w (py ''cookie'')) = [] \<or>
      \<not> sublist (py ''WorkosCursorSessionToken='') (strip (entries w (py ''cookie'')))) \<and>
   (\<forall>c. sublist (py ''WorkosCursorSessionToken='') c \<longrightarrow>
        sublist (py ''WorkosCursorSessionToken'') c) \<and>
   setup_ui env (py ''cookie'') = py ''WorkosCursorSessionToken'' \<and>
   sublist (py ''WorkosCursorSessionToken'') (setup_ui env (py ''cookie'')) \<and>
   (entries w (py ''cookie'') = setup_ui env (py ''cookie'') \<longrightarrow>
      update_auth_body X w = (Inr (), w\<lparr>trace := trace w @ [ShowWarning msg_cookie_format]\<rparr>) \<and>
      update_auth X w = w\<lparr>trace := trace w @ [ShowWarning msg_cookie_format]\<rparr>)"
proof -
  let ?c = "strip (entries w (py ''cookie''))"
  let ?bad = "?c = [] \<or> \<not> sublist (py ''WorkosCursorSessionToken='') ?c"
  have rej: "\<exists>m. update_auth X w = w\<lparr>trace := trace w @ [ShowWarning m]\<rparr>" if ?bad
  proof -
    have "update_auth X w =
            w\<lparr>trace := trace w @
               [ShowWarning (if ?c = [] then msg_enter_cookie else msg_cookie_format)]\<rparr>"
      using update_auth_body_rejects [OF that, of X]
      by (simp add: update_auth_def error_handler_def)
    then show ?thesis by (rule exI)
  qed
  have acc: "update_auth X w \<noteq> w\<lparr>trace := trace w @ [ShowWarning m]\<rparr>" if "\<not> ?bad" for m
  proof
    assume eq: "update_auth X w = w\<lparr>trace := trace w @ [ShowWarning m]\<rparr>"
    have "new_events w (update_auth X w) \<noteq> [ShowWarning m]"
      using that
      by (cases "env_file w"; cases "backup_ok X"; cases "process_cookies X ?c")
         (auto simp: update_auth_def update_auth_body_def error_handler_def and_then_def Let_def
            backup_env_file_missing backup_env_file_done backup_env_file_failed new_events_def
            save_env_vars_simps entry_delete_def)
    then show False using eq by (simp add: new_events_def)
  qed
  have dflt: "setup_ui env (py ''cookie'') = py ''WorkosCursorSessionToken''"
    by (simp add: setup_ui_def)
  have strip_dflt: "strip (py ''WorkosCursorSessionToken'') = py ''WorkosCursorSessionToken''"
    by (simp add: py_def strip_def isspace_def)
  have no_eq: "\<not> sublist (py ''WorkosCursorSessionToken='') (py ''WorkosCursorSessionToken'')"
    by (simp add: py_def sublist_Cons_right)
  have warn: "update_auth_body X w = (Inr (), w\<lparr>trace := trace w @ [ShowWarning msg_cookie_format]\<rparr>)"
    if "entries w (py ''cookie'') = setup_ui env (py ''cookie'')"
    using update_auth_body_rejects [of w X] that no_eq by (simp add: dflt strip_dflt)
  have warn': "update_auth X w = w\<lparr>trace := trace w @ [ShowWarning msg_cookie_format]\<rparr>"
    if "entries w (py ''cookie'') = setup_ui env (py ''cookie'')"
    using warn [OF that] by (simp add: update_auth_def error_handler_def)
  show ?thesis using rej acc sublist_token_name dflt warn warn' by (auto simp: dflt)
qed

theorem update_auth_requires_token_equals_witness:
  "entries fresh_world (py ''cookie'') = setup_ui Map.empty (py ''cookie'') \<and>
   update_auth kind_ext fresh_world = fresh_world\<lparr>trace := [ShowWarning msg_cookie_format]\<rparr> \<and>
   sublist (py ''WorkosCursorSessionToken='') (py ''WorkosCursorSessionToken=abc123'') \<and>
   sublist (py ''WorkosCursorSessionToken'') (py ''WorkosCursorSessionToken=abc123'')"
proof -
  note c10 = update_auth_requires_token_equals [of kind_ext fresh_world Map.empty]
  have h1: "entries fresh_world (py ''cookie'') = setup_ui Map.empty (py ''cookie'')"
    by (simp add: fresh_world_def)
  have h2: "sublist (py ''WorkosCursorSessionToken='') (py ''WorkosCursorSessionToken=abc123'')"
    by (simp add: py_def sublist_Cons_right)
  have t: "trace fresh_world = []"
    by (simp add: fresh_world_def)
  have c1: "update_auth kind_ext fresh_world =
              fresh_world\<lparr>trace := [ShowWarning msg_cookie_format]\<rparr>"
    using c10 h1 t by simp
  have c2: "sublist (py ''WorkosCursorSessionToken'') (py ''WorkosCursorSessionToken=abc123'')"
    using c10 h2 by blast
  show ?thesis using h1 h2 c1 c2 by blast
qed

section \<open>A missing backing file\<close>

text \<open>
  Claim C7. When the backing file does not exist, Generate Account and Update Auth stop at
  the backup step: the body raises the "not found" exception with the world untouched, the
  boundary reports it, and the only change of the world is that one notification (for
  Update Auth, the warning of its validation gate when the cookie is rejected first). No
  copy is added to the backup directory, nothing is written to the store, and no external
  operation is called.
\<close>

theorem missing_env_file_aborts:
  assumes "env_file w = None"
  shows "generate_account_body X w = (Inl (Exception (msg_env_not_found @ env_path X)), w) \<and>
         generate_account X w =
           w\<lparr>trace := trace w @ [ShowError (Exception (msg_env_not_found @ env_path X))]\<rparr> \<and>
         (strip (entries w (py ''cookie'')) \<noteq> [] \<and>
          sublist (py ''WorkosCursorSessionToken='') (strip (entries w (py ''cookie''))) \<longrightarrow>
            update_auth_body X w = (Inl (Exception (msg_env_not_found @ env_path X)), w)) \<and>
         update_auth X w =
           w\<lparr>trace := trace w @
              [if strip (entries w (py ''cookie'')) = [] then ShowWarning msg_enter_cookie
               else if \<not> sublist (py ''WorkosCursorSessionToken='')
                          (strip (entries w (py ''cookie'')))
               then ShowWarning msg_cookie_format
               else ShowError (Exception (msg_env_not_found @ env_path X))]\<rparr> \<and>
         backups (generate_account X w) = backups w \<and>
         backups (update_auth X w) = backups w \<and>
         env_file (generate_account X w) = None \<and>
         env_file (update_auth X w) = None"
proof -
  have g: "generate_account_body X w = (Inl (Exception (msg_env_not_found @ env_path X)), w)"
    using assms by (simp add: generate_account_body_def and_then_def backup_env_file_missing)
  have g': "generate_account X w =
           w\<lparr>trace := trace w @ [ShowError (Exception (msg_env_not_found @ env_path X))]\<rparr>"
    by (simp add: generate_account_def error_handler_def g emit_def)
  have u: "update_auth_body X w = (Inl (Exception (msg_env_not_found @ env_path X)), w)"
    if "strip (entries w (py ''cookie'')) \<noteq> [] \<and>
        sublist (py ''WorkosCursorSessionToken='') (strip (entries w (py ''cookie'')))"
    using assms that by (simp add: update_auth_body_def and_then_def backup_env_file_missing)
  have u': "update_auth X w =
           w\<lparr>trace := trace w @
              [if strip (entries w (py ''cookie'')) = [] then ShowWarning msg_enter_cookie
               else if \<not> sublist (py ''WorkosCursorSessionToken='')
                          (strip (entries w (py ''cookie'')))
               then ShowWarning msg_cookie_format
               else ShowError (Exception (msg_env_not_found @ env_path X))]\<rparr>"
  proof (cases "strip (entries w (py ''cookie'')) \<noteq> [] \<and>
        sublist (py ''WorkosCursorSessionToken='') (strip (entries w (py ''cookie'')))")
    case True
    then show ?thesis using u [OF True] by (simp add: update_auth_def error_handler_def emit_def)
  next
    case False
    then have "strip (entries w (py ''cookie'')) = [] \<or>
      \<not> sublist (py ''WorkosCursorSessionToken='') (strip (entries w (py ''cookie'')))"
      by blast
    from update_auth_body_rejects [OF this, of X] False show ?thesis
      by (auto simp: update_auth_def error_handler_def)
  qed
  show ?thesis using g u assms by (simp add: g' u')
qed

theorem missing_env_file_aborts_witness:
  "env_file missing_file_world = None \<and>
   generate_account kind_ext missing_file_world =
     missing_file_world\<lparr>trace :=
       [ShowError (Exception (msg_env_not_found @ py ''.env''))]\<rparr> \<and>
   update_auth kind_ext missing_file_world =
     missing_file_world\<lparr>trace :=
       [ShowError (Exception (msg_env_not_found @ py ''.env''))]\<rparr>"
proof -
  have h: "env_file missing_file_world = None"
    by (simp add: missing_file_world_def)
  have c: "entries missing_file_world (py ''cookie'') = py ''WorkosCursorSessionToken=abc123''"
    by (simp add: missing_file_world_def cookie_world_def)
  have s: "strip (py ''WorkosCursorSessionToken=abc123'') = py ''WorkosCursorSessionToken=abc123''"
    by (simp add: py_def strip_def isspace_def)
  have v: "sublist (py ''WorkosCursorSessionToken='') (py ''WorkosCursorSessionToken=abc123'')"
    by (simp add: py_def sublist_Cons_right)
  have t: "trace missing_file_world = []" "env_path kind_ext = py ''.env''"
    by (simp_all add: missing_file_world_def cookie_world_def email_world_def fresh_world_def
          kind_ext_def)
  show ?thesis
    using missing_env_file_aborts [OF h, of kind_ext] h v by (simp add: c s t)
qed


section \<open>Update Auth, when the cookie is accepted\<close>

text \<open>
  Claim C8. When the cookie passes validation, the backup succeeds and the cookie-processing
  operation answers with a success envelope, Update Auth reports success with the
  operation's message, then clears the cookie entry, then persists the visible recognised
  fields: the events of the invocation are the backup, the call, the success notification,
  the deletion of the cookie text and the one write of the visible fields, in this order.
\<close>

theorem update_auth_success_order:
  assumes "c = strip (entries w (py ''cookie''))"
      and "c \<noteq> []"
      and "sublist (py ''WorkosCursorSessionToken='') c"
      and "env_file w = Some m"
      and "backup_ok X"
      and "process_cookies X c = Inr r"
      and "success r"
  shows "(let w3 = w\<lparr>backups := take max_backups (m # backups w),
                      entries := (entries w)(py ''cookie'' := []),
                      trace := trace w @
                        [BackupFile True, ProcessCookies c, ShowSuccess (message r),
                         EntryDelete (py ''cookie'')]\<rparr>
          in update_auth_body X w = (Inr (), save_env_vars X None w3) \<and>
             update_auth X w = save_env_vars X None w3 \<and>
             visible_updates w3 = visible_updates w \<and>
             new_events w (update_auth X w) =
               [BackupFile True, ProcessCookies c, ShowSuccess (message r),
                EntryDelete (py ''cookie'')] @
               (if visible_updates w = [] then []
                else if update_ok X (trace w3) (visible_updates w)
                then [UpdateEnvVars (visible_updates w) True]
                else [UpdateEnvVars (visible_updates w) False,
                      ShowWarning msg_save_env_failed]) \<and>
             entries (update_auth X w) = (entries w)(py ''cookie'' := []) \<and>
             (\<forall>k. stored (update_auth X w) k =
                (if update_ok X (trace w3) (visible_updates w) \<and>
                    k \<in> {py ''DOMAIN'', py ''EMAIL'', py ''PASSWORD''} \<and>
                    strip (entries w k) \<noteq> []
                 then Some (strip (entries w k)) else stored w k)))"
proof -
  define w3 where "w3 = w\<lparr>backups := take max_backups (m # backups w),
                      entries := (entries w)(py ''cookie'' := []),
                      trace := trace w @
                        [BackupFile True, ProcessCookies c, ShowSuccess (message r),
                         EntryDelete (py ''cookie'')]\<rparr>"
  have body: "update_auth_body X w = (Inr (), save_env_vars X None w3)"
    using assms
    by (simp add: update_auth_body_def Let_def and_then_def backup_env_file_done w3_def
          entry_delete_def show_success_def emit_def)
  have vis: "visible_updates w3 = visible_updates w"
    by (rule visible_updates_cong) (auto simp: w3_def)
  have tr: "trace w3 = trace w @ [BackupFile True, ProcessCookies c, ShowSuccess (message r),
                         EntryDelete (py ''cookie'')]"
    by (simp add: w3_def)
  have ev: "new_events w (save_env_vars X None w3) =
               [BackupFile True, ProcessCookies c, ShowSuccess (message r),
                EntryDelete (py ''cookie'')] @ save_events X w3"
    by (simp add: save_env_vars_simps tr)
  have en: "entries (save_env_vars X None w3) = (entries w)(py ''cookie'' := [])"
    by (simp add: save_env_vars_simps w3_def)
  have st: "stored (save_env_vars X None w3) k =
                (if update_ok X (trace w3) (visible_updates w) \<and>
                    k \<in> {py ''DOMAIN'', py ''EMAIL'', py ''PASSWORD''} \<and>
                    strip (entries w k) \<noteq> []
                 then Some (strip (entries w k)) else stored w k)" for k
  proof -
    have "stored w3 k = stored w k"
      by (simp add: stored_def w3_def)
    moreover have "k \<in> {py ''DOMAIN'', py ''EMAIL'', py ''PASSWORD''} \<Longrightarrow>
        entries w3 k = entries w k"
      by (auto simp: w3_def)
    ultimately show ?thesis
      unfolding stored_save_env_vars vis by auto
  qed
  show ?thesis
    unfolding Let_def w3_def [symmetric]
    using body vis ev en st by (simp add: update_auth_def error_handler_def save_events_def)
qed

theorem update_auth_success_order_witness:
  "strip (entries cookie_world (py ''cookie'')) = py ''WorkosCursorSessionToken=abc123'' \<and>
   sublist (py ''WorkosCursorSessionToken='') (py ''WorkosCursorSessionToken=abc123'') \<and>
   env_file cookie_world = Some Map.empty \<and> backup_ok kind_ext \<and>
   new_events cookie_world (update_auth kind_ext cookie_world) =
     [BackupFile True, ProcessCookies (py ''WorkosCursorSessionToken=abc123''),
      ShowSuccess (py ''updated''), EntryDelete (py ''cookie''),
      UpdateEnvVars [(py ''EMAIL'', py ''a@b.c'')] True] \<and>
   entries (update_auth kind_ext cookie_world) (py ''cookie'') = [] \<and>
   stored (update_auth kind_ext cookie_world) (py ''EMAIL'') = Some (py ''a@b.c'')"
proof -
  let ?c = "py ''WorkosCursorSessionToken=abc123''"
  let ?r = "\<lparr>success = True, data = NoData, message = py ''updated''\<rparr>"
  have c: "?c = strip (entries cookie_world (py ''cookie''))"
    by (simp add: cookie_world_def py_def strip_def isspace_def)
  have n: "?c \<noteq> []"
    by (simp add: py_def)
  have v: "sublist (py ''WorkosCursorSessionToken='') ?c"
    by (simp add: py_def sublist_Cons_right)
  have f: "env_file cookie_world = Some Map.empty"
    by (simp add: cookie_world_def email_world_def fresh_world_def)
  have b: "backup_ok kind_ext"
    by (simp add: kind_ext_def)
  have p: "process_cookies kind_ext ?c = Inr ?r"
    by (simp add: kind_ext_def)
  have s: "success ?r"
    by simp
  have u: "visible_updates cookie_world = [(py ''EMAIL'', py ''a@b.c'')]"
    by (simp add: visible_updates_def env_vars_def cookie_world_def email_world_def
          fresh_world_def setup_ui_def)
       (simp add: py_def strip_def isspace_def)
  have e: "strip (entries cookie_world (py ''EMAIL'')) = py ''a@b.c''"
    by (simp add: cookie_world_def email_world_def) (simp add: py_def strip_def isspace_def)
  have k: "\<And>w u. update_ok kind_ext w u"
    by (simp add: kind_ext_def)
  note t = update_auth_success_order [OF c n v f b p s, unfolded Let_def]
  note t3 = t [THEN conjunct2, THEN conjunct2, THEN conjunct2]
  have ev: "new_events cookie_world (update_auth kind_ext cookie_world) =
     [BackupFile True, ProcessCookies ?c, ShowSuccess (py ''updated''),
      EntryDelete (py ''cookie''), UpdateEnvVars [(py ''EMAIL'', py ''a@b.c'')] True]"
    using t3 [THEN conjunct1] by (simp add: u k)
  have en: "entries (update_auth kind_ext cookie_world) (py ''cookie'') = []"
    using t3 [THEN conjunct2, THEN conjunct1] by simp
  have "stored (update_auth kind_ext cookie_world) (py ''EMAIL'') =
          (if py ''EMAIL'' \<in> {py ''DOMAIN'', py ''EMAIL'', py ''PASSWORD''} \<and>
              strip (entries cookie_world (py ''EMAIL'')) \<noteq> []
           then Some (strip (entries cookie_world (py ''EMAIL'')))
           else stored cookie_world (py ''EMAIL''))"
    using t3 [THEN conjunct2, THEN conjunct2, THEN spec, of "py ''EMAIL''"]
    by (simp add: k u)
  then have st: "stored (update_auth kind_ext cookie_world) (py ''EMAIL'') = Some (py ''a@b.c'')"
    unfolding e by simp
  show ?thesis
    using c [symmetric] v f b ev en st by simp
qed

section \<open>Generate Account\<close>

lemma key_distinct [simp]:
  "py ''DOMAIN'' \<noteq> py ''EMAIL''" "py ''DOMAIN'' \<noteq> py ''PASSWORD''"
  "py ''EMAIL'' \<noteq> py ''PASSWORD''" "py ''EMAIL'' \<noteq> py ''DOMAIN''"
  "py ''PASSWORD'' \<noteq> py ''DOMAIN''" "py ''PASSWORD'' \<noteq> py ''EMAIL''"
  by simp_all

text \<open>The world after the first two stages of Generate Account, when they succeed.\<close>

lemma generate_account_prelude:
  assumes "env_file w = Some m" and "backup_ok X"
      and "d = strip (entries w (py ''DOMAIN''))"
      and "d = [] \<or> update_ok X (trace w @ [BackupFile True]) [(py ''DOMAIN'', d)]"
  shows "\<exists>w2. and_then (backup_env_file X) (\<lambda>_. save_domain X) w = (Inr (), w2) \<and>
           trace w2 = trace w @ [BackupFile True] @
             (if d = [] then [] else [UpdateEnvVars [(py ''DOMAIN'', d)] True, LoadDotenv]) \<and>
           entries w2 = entries w \<and>
           backups w2 = take max_backups (m # backups w) \<and>
           (\<forall>k. stored w2 k = (if k = py ''DOMAIN'' \<and> d \<noteq> [] then Some d else stored w k)) \<and>
           (d = [] \<longrightarrow> env_file w2 = env_file w)"
  using assms
  by (auto simp: and_then_def backup_env_file_done save_domain_def Let_def
        update_env_vars_def stored_def load_dotenv_def emit_def)

lemma generate_account_body_eq:
  "generate_account_body X w =
     (case and_then (backup_env_file X) (\<lambda>_. save_domain X) w of
        (Inl e, w2) \<Rightarrow> (Inl e, w2)
      | (Inr _, w2) \<Rightarrow>
          (case call_generate X w2 of
             (Inl e, w3) \<Rightarrow> (Inl e, w3)
           | (Inr result, w3) \<Rightarrow>
               (case credentials result of
                  Inl e \<Rightarrow> (Inl e, w3)
                | Inr (email, password) \<Rightarrow>
                    (Inr (),
                     save_env_vars X None
                       (show_success msg_account_generated
                          (fill_credentials email password w3))))))"
  by (simp add: generate_account_body_def and_then_def split: prod.splits sum.splits)


lemma call_generate_failure:
  "generate_cursor_account X = Inr (Envelope r) \<Longrightarrow> \<not> success r \<Longrightarrow>
   call_generate X w = (Inl (RuntimeError (message r)), emit GenerateCursorAccount w)"
  by (simp add: call_generate_def truthy_def)

lemma call_generate_success:
  "generate_cursor_account X = Inr g \<Longrightarrow> truthy g \<Longrightarrow>
   call_generate X w = (Inr g, emit GenerateCursorAccount w)"
  by (simp add: call_generate_def)

lemma generate_account_fails:
  assumes "env_file w = Some m" and "backup_ok X"
      and "d = strip (entries w (py ''DOMAIN''))"
      and "d = [] \<or> update_ok X (trace w @ [BackupFile True]) [(py ''DOMAIN'', d)]"
      and "generate_cursor_account X = Inr (Envelope r)"
      and "\<not> success r"
  shows "fst (generate_account_body X w) = Inl (RuntimeError (message r)) \<and>
         new_events w (generate_account X w) =
           [BackupFile True] @
           (if d = [] then [] else [UpdateEnvVars [(py ''DOMAIN'', d)] True, LoadDotenv]) @
           [GenerateCursorAccount, ShowError (RuntimeError (message r))] \<and>
         entries (generate_account X w) = entries w \<and>
         backups (generate_account X w) = take max_backups (m # backups w) \<and>
         (\<forall>k. stored (generate_account X w) k =
            (if k = py ''DOMAIN'' \<and> d \<noteq> [] then Some d else stored w k)) \<and>
         (d = [] \<longrightarrow> env_file (generate_account X w) = env_file w)"
proof -
  obtain w2 where
    pre: "and_then (backup_env_file X) (\<lambda>_. save_domain X) w = (Inr (), w2)" and
    tr: "trace w2 = trace w @ [BackupFile True] @
           (if d = [] then [] else [UpdateEnvVars [(py ''DOMAIN'', d)] True, LoadDotenv])" and
    en: "entries w2 = entries w" and
    bk: "backups w2 = take max_backups (m # backups w)" and
    st: "\<forall>k. stored w2 k = (if k = py ''DOMAIN'' \<and> d \<noteq> [] then Some d else stored w k)" and
    fl: "d = [] \<longrightarrow> env_file w2 = env_file w"
    using generate_account_prelude [OF assms(1-4)] by blast
  have body: "generate_account_body X w =
      (Inl (RuntimeError (message r)), emit GenerateCursorAccount w2)"
    by (simp add: generate_account_body_eq pre call_generate_failure [OF assms(5,6)])
  have run: "generate_account X w =
      emit (ShowError (RuntimeError (message r))) (emit GenerateCursorAccount w2)"
    by (simp add: generate_account_def error_handler_def body)
  have ev: "new_events w (generate_account X w) =
           [BackupFile True] @
           (if d = [] then [] else [UpdateEnvVars [(py ''DOMAIN'', d)] True, LoadDotenv]) @
           [GenerateCursorAccount, ShowError (RuntimeError (message r))]"
    by (rule new_events_append) (simp add: run tr)
  show ?thesis
    using ev en bk st fl by (simp add: body run)
qed

lemma strip_samples:
  "strip (py ''example.com'') = py ''example.com''"
  "strip (py ''a@b.c'') = py ''a@b.c''"
  "strip (py ''pw'') = py ''pw''"
  "strip [] = []"
  by (simp_all add: py_def strip_def isspace_def)

lemma domain_world_simps:
  "env_file domain_world = Some Map.empty" "trace domain_world = []"
  "backups domain_world = []"
  "entries domain_world (py ''DOMAIN'') = py ''example.com''"
  "stored domain_world k = None"
  by (simp_all add: domain_world_def fresh_world_def stored_def)

lemma quota_ext_simps:
  "backup_ok quota_ext" "update_ok quota_ext h u"
  "generate_cursor_account quota_ext =
     Inr (Envelope \<lparr>success = False, data = NoData, message = py ''quota exceeded''\<rparr>)"
  by (simp_all add: quota_ext_def kind_ext_def)

lemma kind_ext_simps:
  "backup_ok kind_ext" "update_ok kind_ext h u"
  "generate_cursor_account kind_ext =
     Inr (Envelope \<lparr>success = True, data = TupleData [py ''a@b.c'', py ''pw''],
                    message = py ''ok''\<rparr>)"
  "generate_cursor_account legacy_ext = Inr (PlainTuple [py ''a@b.c'', py ''pw''])"
  "backup_ok legacy_ext" "update_ok legacy_ext h u"
  by (simp_all add: kind_ext_def legacy_ext_def)

lemma environ_simps [simp]:
  "environ (show_warning t w) = environ w" "environ (show_success t w) = environ w"
  "environ (entry_delete a w) = environ w" "environ (entry_insert a v w) = environ w"
  "environ (save_env_vars X None w) = environ w"
  by (simp_all add: show_warning_def show_success_def entry_delete_def entry_insert_def
        save_env_vars_None update_env_vars_simps)

text \<open>The first two stages again, with the backing file and the environment they leave.\<close>

lemma generate_account_prelude_store:
  assumes "env_file w = Some m" and "backup_ok X"
      and "d = strip (entries w (py ''DOMAIN''))"
      and "d = [] \<or> update_ok X (trace w @ [BackupFile True]) [(py ''DOMAIN'', d)]"
  shows "\<exists>w2. and_then (backup_env_file X) (\<lambda>_. save_domain X) w = (Inr (), w2) \<and>
           trace w2 = trace w @ [BackupFile True] @
             (if d = [] then [] else [UpdateEnvVars [(py ''DOMAIN'', d)] True, LoadDotenv]) \<and>
           entries w2 = entries w \<and>
           backups w2 = take max_backups (m # backups w) \<and>
           env_file w2 = Some (if d = [] then m else m(py ''DOMAIN'' \<mapsto> d)) \<and>
           environ w2 = (if d = [] then environ w else environ w ++ m(py ''DOMAIN'' \<mapsto> d))"
  using assms
  by (auto simp: and_then_def backup_env_file_done save_domain_def Let_def
        update_env_vars_def load_dotenv_def emit_def)

lemma call_generate_world: "snd (call_generate X w) = emit GenerateCursorAccount w"
  by (simp add: call_generate_def split: sum.splits)

text \<open>Nothing after the first two stages touches the backup directory or the environment.\<close>

lemma generate_account_rest_keeps:
  assumes "and_then (backup_env_file X) (\<lambda>_. save_domain X) w = (Inr (), w2)"
  shows "backups (generate_account X w) = backups w2 \<and>
         environ (generate_account X w) = environ w2"
proof (cases "call_generate X w2")
  case (Pair r w3)
  then have w3: "w3 = emit GenerateCursorAccount w2"
    using call_generate_world [of X w2] by simp
  show ?thesis
  proof (cases r)
    case (Inl e)
    then show ?thesis
      using Pair w3
      by (simp add: generate_account_def error_handler_def generate_account_body_eq assms)
  next
    case (Inr result)
    show ?thesis
    proof (cases "credentials result")
      case (Inl e)
      then show ?thesis
        using Pair Inr w3
        by (simp add: generate_account_def error_handler_def generate_account_body_eq assms)
    next
      case cred: (Inr c)
      obtain email password where c: "c = (email, password)" by (cases c)
      show ?thesis
        using Pair Inr cred c w3
        by (simp add: generate_account_def error_handler_def generate_account_body_eq assms
              save_env_vars_simps fill_credentials_def)
    qed
  qed
qed

text \<open>
  Claim C6. With the backing file present, the backup successful and the domain (if any)
  saved, Generate Account runs in this order: the backup; when the DOMAIN entry is not
  empty after stripping, the write of the domain and the reload of the environment; the
  call of the generator; on a failure envelope the abort with its message; on success the
  replacement of the EMAIL and PASSWORD entries by the generated credentials, the success
  notification, and only then the write of the visible fields. The store then has the
  domain under DOMAIN and, when that last write succeeds, the stripped email and password
  under EMAIL and PASSWORD (when they are not empty), and every other value as before; the
  backup directory has the copy of the file, and the environment has been reloaded from
  the file with the domain. The credentials are taken from a success envelope and from a
  plain pair alike.
\<close>

theorem generate_account_order:
  assumes "env_file w = Some m" and "backup_ok X"
      and "d = strip (entries w (py ''DOMAIN''))"
      and "d = [] \<or> update_ok X (trace w @ [BackupFile True]) [(py ''DOMAIN'', d)]"
      and "generate_cursor_account X = Inr g"
  shows "(let first = [BackupFile True] @
                 (if d = [] then [] else [UpdateEnvVars [(py ''DOMAIN'', d)] True, LoadDotenv]) @
                 [GenerateCursorAccount]
          in (\<forall>r. g = Envelope r \<and> \<not> success r \<longrightarrow>
                new_events w (generate_account X w) =
                  first @ [ShowError (RuntimeError (message r))] \<and>
                entries (generate_account X w) = entries w \<and>
                (\<forall>k. stored (generate_account X w) k =
                   (if k = py ''DOMAIN'' \<and> d \<noteq> [] then Some d else stored w k))) \<and>
             (\<forall>email password. truthy g \<and> credentials g = Inr (email, password) \<longrightarrow>
                (let filled = first @
                       [EntryDelete (py ''EMAIL''), EntryInsert (py ''EMAIL'') email,
                        EntryDelete (py ''PASSWORD''), EntryInsert (py ''PASSWORD'') password,
                        ShowSuccess msg_account_generated];
                     u = filter (\<lambda>(k, v). v \<noteq> [])
                           [(py ''DOMAIN'', d), (py ''EMAIL'', strip email),
                            (py ''PASSWORD'', strip password)]
                 in new_events w (generate_account X w) =
                      filled @
                      (if u = [] then []
                       else if update_ok X (trace w @ filled) u then [UpdateEnvVars u True]
                       else [UpdateEnvVars u False, ShowWarning msg_save_env_failed]) \<and>
                    entries (generate_account X w) =
                      (entries w)(py ''EMAIL'' := email, py ''PASSWORD'' := password) \<and>
                    (\<forall>k. stored (generate_account X w) k =
                       (if update_ok X (trace w @ filled) u \<and> k = py ''EMAIL'' \<and>
                           strip email \<noteq> []
                        then Some (strip email)
                        else if update_ok X (trace w @ filled) u \<and> k = py ''PASSWORD'' \<and>
                                strip password \<noteq> []
                        then Some (strip password)
                        else if k = py ''DOMAIN'' \<and> d \<noteq> [] then Some d
                        else stored w k)))))
         \<and> backups (generate_account X w) = take max_backups (m # backups w)
         \<and> environ (generate_account X w) =
             (if d = [] then environ w else environ w ++ m(py ''DOMAIN'' \<mapsto> d))
         \<and> truthy (Envelope \<lparr>success = True, data = TupleData [a, b], message = t\<rparr>)
         \<and> credentials (Envelope \<lparr>success = True, data = TupleData [a, b], message = t\<rparr>) =
             Inr (a, b)
         \<and> truthy (PlainTuple [a, b])
         \<and> credentials (PlainTuple [a, b]) = Inr (a, b)"
proof -
  define first where "first = [BackupFile True] @
                 (if d = [] then [] else [UpdateEnvVars [(py ''DOMAIN'', d)] True, LoadDotenv]) @
                 [GenerateCursorAccount]"
  define kept where
    "kept = (\<lambda>k. if k = py ''DOMAIN'' \<and> d \<noteq> [] then Some d else stored w k)"
  obtain w2 where
    pre: "and_then (backup_env_file X) (\<lambda>_. save_domain X) w = (Inr (), w2)" and
    tr: "trace w2 = trace w @ [BackupFile True] @
           (if d = [] then [] else [UpdateEnvVars [(py ''DOMAIN'', d)] True, LoadDotenv])" and
    en: "entries w2 = entries w" and
    bk: "backups w2 = take max_backups (m # backups w)" and
    fl: "env_file w2 = Some (if d = [] then m else m(py ''DOMAIN'' \<mapsto> d))" and
    ev: "environ w2 = (if d = [] then environ w else environ w ++ m(py ''DOMAIN'' \<mapsto> d))"
    using generate_account_prelude_store [OF assms(1-4)] by blast
  have st2: "stored w2 k = kept k" for k
    by (simp add: stored_def fl assms(1) kept_def)
  have fail: "new_events w (generate_account X w) =
                  first @ [ShowError (RuntimeError (message r))] \<and>
                entries (generate_account X w) = entries w \<and>
                (\<forall>k. stored (generate_account X w) k = kept k)"
    if "g = Envelope r \<and> \<not> success r" for r
  proof -
    have "generate_cursor_account X = Inr (Envelope r)" "\<not> success r"
      using that assms(5) by simp_all
    from generate_account_fails [OF assms(1-4) this]
    show ?thesis by (simp add: first_def kept_def)
  qed
  have good: "new_events w (generate_account X w) =
                (first @
                 [EntryDelete (py ''EMAIL''), EntryInsert (py ''EMAIL'') email,
                  EntryDelete (py ''PASSWORD''), EntryInsert (py ''PASSWORD'') password,
                  ShowSuccess msg_account_generated]) @
                (if u = [] then []
                 else if update_ok X
                      (trace w @ first @
                       [EntryDelete (py ''EMAIL''), EntryInsert (py ''EMAIL'') email,
                        EntryDelete (py ''PASSWORD''), EntryInsert (py ''PASSWORD'') password,
                        ShowSuccess msg_account_generated]) u
                 then [UpdateEnvVars u True]
                 else [UpdateEnvVars u False, ShowWarning msg_save_env_failed]) \<and>
              entries (generate_account X w) =
                (entries w)(py ''EMAIL'' := email, py ''PASSWORD'' := password) \<and>
              (\<forall>k. stored (generate_account X w) k =
                 (if update_ok X
                      (trace w @ first @
                       [EntryDelete (py ''EMAIL''), EntryInsert (py ''EMAIL'') email,
                        EntryDelete (py ''PASSWORD''), EntryInsert (py ''PASSWORD'') password,
                        ShowSuccess msg_account_generated]) u \<and>
                     k = py ''EMAIL'' \<and> strip email \<noteq> []
                  then Some (strip email)
                  else if update_ok X
                      (trace w @ first @
                       [EntryDelete (py ''EMAIL''), EntryInsert (py ''EMAIL'') email,
                        EntryDelete (py ''PASSWORD''), EntryInsert (py ''PASSWORD'') password,
                        ShowSuccess msg_account_generated]) u \<and>
                     k = py ''PASSWORD'' \<and> strip password \<noteq> []
                  then Some (strip password)
                  else kept k))"
    if ok: "truthy g \<and> credentials g = Inr (email, password)"
      and u: "u = filter (\<lambda>(k, v). v \<noteq> [])
                           [(py ''DOMAIN'', d), (py ''EMAIL'', strip email),
                            (py ''PASSWORD'', strip password)]"
    for email password u
  proof -
    define filled where "filled = first @
                 [EntryDelete (py ''EMAIL''), EntryInsert (py ''EMAIL'') email,
                  EntryDelete (py ''PASSWORD''), EntryInsert (py ''PASSWORD'') password,
                  ShowSuccess msg_account_generated]"
    define w5 where "w5 = show_success msg_account_generated
                          (fill_credentials email password (emit GenerateCursorAccount w2))"
    have body: "generate_account_body X w = (Inr (), save_env_vars X None w5)"
      using ok
      by (simp add: generate_account_body_eq pre call_generate_success [OF assms(5)] w5_def)
    have run: "generate_account X w = save_env_vars X None w5"
      by (simp add: generate_account_def error_handler_def body)
    have e5: "entries w5 = (entries w)(py ''EMAIL'' := email, py ''PASSWORD'' := password)"
      by (simp add: w5_def fill_credentials_def en)
    have t5: "trace w5 = trace w @ filled"
      by (simp add: w5_def fill_credentials_def tr first_def filled_def)
    have u5: "visible_updates w5 = u"
      by (simp add: visible_updates_def env_vars_def e5 assms(3) u)
    have s5: "stored w5 k = kept k" for k
      using st2 [of k] by (simp add: w5_def fill_credentials_def)
    have "trace (generate_account X w) = trace w5 @ save_events X w5"
      by (simp add: run save_env_vars_simps)
    then have "new_events w (generate_account X w) = filled @ save_events X w5"
      by (intro new_events_append) (simp add: t5)
    then have events: "new_events w (generate_account X w) =
        filled @
        (if u = [] then []
         else if update_ok X (trace w @ filled) u then [UpdateEnvVars u True]
         else [UpdateEnvVars u False, ShowWarning msg_save_env_failed])"
      by (simp add: save_events_def u5 t5)
    have fields: "entries (generate_account X w) =
        (entries w)(py ''EMAIL'' := email, py ''PASSWORD'' := password)"
      by (simp add: run save_env_vars_simps e5)
    have store: "stored (generate_account X w) k =
        (if update_ok X (trace w @ filled) u \<and> k = py ''EMAIL'' \<and> strip email \<noteq> []
         then Some (strip email)
         else if update_ok X (trace w @ filled) u \<and> k = py ''PASSWORD'' \<and>
                 strip password \<noteq> []
         then Some (strip password)
         else kept k)" for k
    proof -
      have "stored (generate_account X w) k =
          (if update_ok X (trace w @ filled) u \<and>
              k \<in> {py ''DOMAIN'', py ''EMAIL'', py ''PASSWORD''} \<and> strip (entries w5 k) \<noteq> []
           then Some (strip (entries w5 k)) else kept k)"
        unfolding run stored_save_env_vars u5 t5 s5 ..
      also have "\<dots> =
        (if update_ok X (trace w @ filled) u \<and> k = py ''EMAIL'' \<and> strip email \<noteq> []
         then Some (strip email)
         else if update_ok X (trace w @ filled) u \<and> k = py ''PASSWORD'' \<and>
                 strip password \<noteq> []
         then Some (strip password)
         else kept k)"
        by (auto simp: e5 kept_def assms(3))
      finally show ?thesis .
    qed
    show ?thesis
      using events fields store unfolding filled_def by blast
  qed
  note keeps = generate_account_rest_keeps [OF pre]
  have shapes:
    "truthy (Envelope \<lparr>success = True, data = TupleData [a, b], message = t\<rparr>)"
    "credentials (Envelope \<lparr>success = True, data = TupleData [a, b], message = t\<rparr>) = Inr (a, b)"
    "truthy (PlainTuple [a, b])"
    "credentials (PlainTuple [a, b]) = Inr (a, b)"
    by (simp_all add: truthy_def credentials_def unpack2_def)
  have part1: "\<forall>r. g = Envelope r \<and> \<not> success r \<longrightarrow>
                new_events w (generate_account X w) =
                  first @ [ShowError (RuntimeError (message r))] \<and>
                entries (generate_account X w) = entries w \<and>
                (\<forall>k. stored (generate_account X w) k = kept k)"
    using fail by blast
  have part2: "\<forall>email password. truthy g \<and> credentials g = Inr (email, password) \<longrightarrow>
     (let filled = first @
                       [EntryDelete (py ''EMAIL''), EntryInsert (py ''EMAIL'') email,
                        EntryDelete (py ''PASSWORD''), EntryInsert (py ''PASSWORD'') password,
                        ShowSuccess msg_account_generated];
          u = filter (\<lambda>(k, v). v \<noteq> [])
                           [(py ''DOMAIN'', d), (py ''EMAIL'', strip email),
                            (py ''PASSWORD'', strip password)]
      in new_events w (generate_account X w) =
                      filled @
                      (if u = [] then []
                       else if update_ok X (trace w @ filled) u then [UpdateEnvVars u True]
                       else [UpdateEnvVars u False, ShowWarning msg_save_env_failed]) \<and>
                    entries (generate_account X w) =
                      (entries w)(py ''EMAIL'' := email, py ''PASSWORD'' := password) \<and>
                    (\<forall>k. stored (generate_account X w) k =
                       (if update_ok X (trace w @ filled) u \<and> k = py ''EMAIL'' \<and>
                           strip email \<noteq> []
                        then Some (strip email)
                        else if update_ok X (trace w @ filled) u \<and> k = py ''PASSWORD'' \<and>
                                strip password \<noteq> []
                        then Some (strip password)
                        else kept k)))"
    unfolding Let_def using good by blast
  show ?thesis
    unfolding Let_def first_def [symmetric]
    using part1 part2 [unfolded Let_def] keeps shapes
    unfolding kept_def bk ev by blast
qed

theorem generate_account_order_witness:
  "env_file domain_world = Some Map.empty \<and> backup_ok kind_ext \<and> backup_ok legacy_ext \<and>
   update_ok kind_ext [BackupFile True] [(py ''DOMAIN'', py ''example.com'')] \<and>
   new_events domain_world (generate_account kind_ext domain_world) =
     [BackupFile True, UpdateEnvVars [(py ''DOMAIN'', py ''example.com'')] True, LoadDotenv,
      GenerateCursorAccount,
      EntryDelete (py ''EMAIL''), EntryInsert (py ''EMAIL'') (py ''a@b.c''),
      EntryDelete (py ''PASSWORD''), EntryInsert (py ''PASSWORD'') (py ''pw''),
      ShowSuccess msg_account_generated,
      UpdateEnvVars [(py ''DOMAIN'', py ''example.com''), (py ''EMAIL'', py ''a@b.c''),
                     (py ''PASSWORD'', py ''pw'')] True] \<and>
   new_events domain_world (generate_account legacy_ext domain_world) =
     new_events domain_world (generate_account kind_ext domain_world) \<and>
   stored (generate_account kind_ext domain_world) (py ''DOMAIN'') = Some (py ''example.com'') \<and>
   stored (generate_account kind_ext domain_world) (py ''EMAIL'') = Some (py ''a@b.c'') \<and>
   stored (generate_account kind_ext domain_world) (py ''PASSWORD'') = Some (py ''pw'') \<and>
   backups (generate_account kind_ext domain_world) = [Map.empty] \<and>
   environ (generate_account kind_ext domain_world) (py ''DOMAIN'') = Some (py ''example.com'')"
proof -
  let ?g = "Envelope \<lparr>success = True, data = TupleData [py ''a@b.c'', py ''pw''],
                      message = py ''ok''\<rparr>"
  let ?l = "PlainTuple [py ''a@b.c'', py ''pw'']"
  have d: "py ''example.com'' = strip (entries domain_world (py ''DOMAIN''))"
    by (simp add: domain_world_simps strip_samples)
  have u: "py ''example.com'' = [] \<or>
     update_ok kind_ext (trace domain_world @ [BackupFile True])
       [(py ''DOMAIN'', py ''example.com'')]"
    by (simp add: kind_ext_simps)
  have u': "py ''example.com'' = [] \<or>
     update_ok legacy_ext (trace domain_world @ [BackupFile True])
       [(py ''DOMAIN'', py ''example.com'')]"
    by (simp add: kind_ext_simps)
  have okg: "truthy ?g \<and> credentials ?g = Inr (py ''a@b.c'', py ''pw'')"
    by (simp add: truthy_def credentials_def unpack2_def)
  have okl: "truthy ?l \<and> credentials ?l = Inr (py ''a@b.c'', py ''pw'')"
    by (simp add: truthy_def credentials_def unpack2_def)
  note whole = generate_account_order
    [OF domain_world_simps(1) kind_ext_simps(1) d u kind_ext_simps(3), unfolded Let_def]
  note run = whole [THEN conjunct1, THEN conjunct2, THEN spec, THEN spec, THEN mp, OF okg]
  note tg = run [THEN conjunct1]
  note sg = run [THEN conjunct2, THEN conjunct2, THEN spec]
  have sd: "stored (generate_account kind_ext domain_world) (py ''DOMAIN'') =
      Some (py ''example.com'')"
    using sg [of "py ''DOMAIN''"] by simp
  have se: "stored (generate_account kind_ext domain_world) (py ''EMAIL'') =
      Some (py ''a@b.c'')"
    using sg [of "py ''EMAIL''"] by (simp add: strip_samples kind_ext_simps)
  have sp: "stored (generate_account kind_ext domain_world) (py ''PASSWORD'') =
      Some (py ''pw'')"
    using sg [of "py ''PASSWORD''"] by (simp add: strip_samples kind_ext_simps)
  have bk: "backups (generate_account kind_ext domain_world) = [Map.empty]"
    using whole [THEN conjunct2, THEN conjunct1]
    by (simp add: domain_world_simps max_backups_def)
  have ev: "environ (generate_account kind_ext domain_world) (py ''DOMAIN'') =
      Some (py ''example.com'')"
    using whole [THEN conjunct2, THEN conjunct2, THEN conjunct1] by simp
  note tl = generate_account_order
    [OF domain_world_simps(1) kind_ext_simps(5) d u' kind_ext_simps(4), unfolded Let_def,
     THEN conjunct1, THEN conjunct2, THEN spec, THEN spec, THEN mp, OF okl, THEN conjunct1]
  have eg: "new_events domain_world (generate_account kind_ext domain_world) =
     [BackupFile True, UpdateEnvVars [(py ''DOMAIN'', py ''example.com'')] True, LoadDotenv,
      GenerateCursorAccount,
      EntryDelete (py ''EMAIL''), EntryInsert (py ''EMAIL'') (py ''a@b.c''),
      EntryDelete (py ''PASSWORD''), EntryInsert (py ''PASSWORD'') (py ''pw''),
      ShowSuccess msg_account_generated,
      UpdateEnvVars [(py ''DOMAIN'', py ''example.com''), (py ''EMAIL'', py ''a@b.c''),
                     (py ''PASSWORD'', py ''pw'')] True]"
    using tg by (simp add: strip_samples kind_ext_simps)
  have el: "new_events domain_world (generate_account legacy_ext domain_world) =
     [BackupFile True, UpdateEnvVars [(py ''DOMAIN'', py ''example.com'')] True, LoadDotenv,
      GenerateCursorAccount,
      EntryDelete (py ''EMAIL''), EntryInsert (py ''EMAIL'') (py ''a@b.c''),
      EntryDelete (py ''PASSWORD''), EntryInsert (py ''PASSWORD'') (py ''pw''),
      ShowSuccess msg_account_generated,
      UpdateEnvVars [(py ''DOMAIN'', py ''example.com''), (py ''EMAIL'', py ''a@b.c''),
                     (py ''PASSWORD'', py ''pw'')] True]"
    using tl by (simp add: strip_samples kind_ext_simps)
  show ?thesis
    using eg el sd se sp bk ev by (simp add: domain_world_simps kind_ext_simps)
qed

text \<open>
  Claim C3, as the code has it. When the generator answers with a failure envelope,
  Generate Account raises a \<open>RuntimeError\<close> with exactly the envelope's message, which the
  boundary reports. The entries are unchanged and a backup has been made. The store keeps
  every value except that of DOMAIN, which has been written before the call when the DOMAIN
  entry is not empty after stripping; when it is empty the backing file is unchanged.
\<close>

theorem generate_account_failure_envelope:
  assumes "env_file w = Some m" and "backup_ok X"
      and "d = strip (entries w (py ''DOMAIN''))"
      and "d = [] \<or> update_ok X (trace w @ [BackupFile True]) [(py ''DOMAIN'', d)]"
      and "generate_cursor_account X = Inr (Envelope r)"
      and "\<not> success r"
  shows "fst (generate_account_body X w) = Inl (RuntimeError (message r)) \<and>
         new_events w (generate_account X w) =
           [BackupFile True] @
           (if d = [] then [] else [UpdateEnvVars [(py ''DOMAIN'', d)] True, LoadDotenv]) @
           [GenerateCursorAccount, ShowError (RuntimeError (message r))] \<and>
         entries (generate_account X w) = entries w \<and>
         backups (generate_account X w) = take max_backups (m # backups w) \<and>
         (\<forall>k. stored (generate_account X w) k =
            (if k = py ''DOMAIN'' \<and> d \<noteq> [] then Some d else stored w k)) \<and>
         (d = [] \<longrightarrow> env_file (generate_account X w) = env_file w)"
  using assms by (rule generate_account_fails)

theorem generate_account_failure_envelope_witness:
  "env_file domain_world = Some Map.empty \<and> backup_ok quota_ext \<and>
   update_ok quota_ext [BackupFile True] [(py ''DOMAIN'', py ''example.com'')] \<and>
   generate_cursor_account quota_ext =
     Inr (Envelope \<lparr>success = False, data = NoData, message = py ''quota exceeded''\<rparr>) \<and>
   new_events domain_world (generate_account quota_ext domain_world) =
     [BackupFile True, UpdateEnvVars [(py ''DOMAIN'', py ''example.com'')] True, LoadDotenv,
      GenerateCursorAccount, ShowError (RuntimeError (py ''quota exceeded''))] \<and>
   stored (generate_account quota_ext domain_world) (py ''EMAIL'') = None \<and>
   stored (generate_account quota_ext domain_world) (py ''PASSWORD'') = None"
proof -
  let ?r = "\<lparr>success = False, data = NoData, message = py ''quota exceeded''\<rparr>"
  have d: "py ''example.com'' = strip (entries domain_world (py ''DOMAIN''))"
    by (simp add: domain_world_simps strip_samples)
  have u: "py ''example.com'' = [] \<or>
     update_ok quota_ext (trace domain_world @ [BackupFile True])
       [(py ''DOMAIN'', py ''example.com'')]"
    by (simp add: quota_ext_simps)
  have s: "\<not> success ?r"
    by simp
  note t = generate_account_failure_envelope
    [OF domain_world_simps(1) quota_ext_simps(1) d u quota_ext_simps(3) s]
  have ev: "new_events domain_world (generate_account quota_ext domain_world) =
     [BackupFile True, UpdateEnvVars [(py ''DOMAIN'', py ''example.com'')] True, LoadDotenv,
      GenerateCursorAccount, ShowError (RuntimeError (py ''quota exceeded''))]"
    using t [THEN conjunct2, THEN conjunct1] by simp
  note st = t [THEN conjunct2, THEN conjunct2, THEN conjunct2, THEN conjunct2, THEN conjunct1]
  have e: "stored (generate_account quota_ext domain_world) (py ''EMAIL'') = None"
    using st [THEN spec, of "py ''EMAIL''"] by (simp add: domain_world_simps)
  have p: "stored (generate_account quota_ext domain_world) (py ''PASSWORD'') = None"
    using st [THEN spec, of "py ''PASSWORD''"] by (simp add: domain_world_simps)
  show ?thesis
    using ev e p by (simp add: domain_world_simps quota_ext_simps)
qed

text \<open>
  The claim as the spec states it fails: with \<open>example.com\<close> in the DOMAIN entry and a
  generator that answers "quota exceeded", the store has a DOMAIN value afterwards that it
  did not have before.
\<close>

theorem generate_account_failure_mutates_store:
  "generate_cursor_account quota_ext =
     Inr (Envelope \<lparr>success = False, data = NoData, message = py ''quota exceeded''\<rparr>) \<and>
   stored domain_world (py ''DOMAIN'') = None \<and>
   stored (generate_account quota_ext domain_world) (py ''DOMAIN'') = Some (py ''example.com'') \<and>
   env_file (generate_account quota_ext domain_world) \<noteq> env_file domain_world"
proof -
  let ?r = "\<lparr>success = False, data = NoData, message = py ''quota exceeded''\<rparr>"
  have d: "py ''example.com'' = strip (entries domain_world (py ''DOMAIN''))"
    by (simp add: domain_world_simps strip_samples)
  have u: "py ''example.com'' = [] \<or>
     update_ok quota_ext (trace domain_world @ [BackupFile True])
       [(py ''DOMAIN'', py ''example.com'')]"
    by (simp add: quota_ext_simps)
  have s: "\<not> success ?r"
    by simp
  note t = generate_account_fails
    [OF domain_world_simps(1) quota_ext_simps(1) d u quota_ext_simps(3) s]
  note st = t [THEN conjunct2, THEN conjunct2, THEN conjunct2, THEN conjunct2, THEN conjunct1]
  have a: "stored (generate_account quota_ext domain_world) (py ''DOMAIN'') =
      Some (py ''example.com'')"
    using st [THEN spec, of "py ''DOMAIN''"] by simp
  have b: "stored domain_world (py ''DOMAIN'') = None"
    by (simp add: domain_world_simps)
  have "env_file (generate_account quota_ext domain_world) \<noteq> env_file domain_world"
  proof
    assume "env_file (generate_account quota_ext domain_world) = env_file domain_world"
    then have "stored (generate_account quota_ext domain_world) (py ''DOMAIN'') =
        stored domain_world (py ''DOMAIN'')"
      by (simp add: stored_def)
    then show False using a b by simp
  qed
  then show ?thesis using a b by (simp add: quota_ext_simps)
qed

section \<open>Backups before writes\<close>

lemma writes_backed_True [simp]: "writes_backed True es"
proof (induction es)
  case Nil
  show ?case by simp
next
  case (Cons e es)
  then show ?case by (cases e) simp_all
qed

lemma new_events_prefix:
  "prefix (trace w1) (trace w') \<Longrightarrow> trace w1 = trace w @ es \<Longrightarrow>
   \<exists>es'. new_events w w' = es @ es'"
  by (auto simp: prefix_def new_events_def)

lemma prefix_and_then:
  assumes "prefix (trace w) (trace (snd (m w)))"
      and "\<And>x w'. prefix (trace w') (trace (snd (f x w')))"
  shows "prefix (trace w) (trace (snd (and_then m f w)))"
proof (cases "m w")
  case (Pair r w1)
  show ?thesis
  proof (cases r)
    case (Inl e)
    with Pair assms(1) show ?thesis by (simp add: and_then_def)
  next
    case (Inr x)
    have "prefix (trace w1) (trace (snd (f x w1)))" by (rule assms(2))
    moreover have "prefix (trace w) (trace w1)" using assms(1) Pair by simp
    ultimately have "prefix (trace w) (trace (snd (f x w1)))" by (rule prefix_order.trans [rotated])
    with Pair Inr show ?thesis by (simp add: and_then_def)
  qed
qed

lemma prefix_save_env_vars: "prefix (trace w) (trace (save_env_vars X None w))"
  by (simp add: save_env_vars_simps)

lemma prefix_save_domain: "prefix (trace w) (trace (snd (save_domain X w)))"
  by (simp add: save_domain_def Let_def update_env_vars_def)

lemma prefix_call_generate: "prefix (trace w) (trace (snd (call_generate X w)))"
  by (simp add: call_generate_def split: sum.splits)

lemma prefix_finish_generate:
  "prefix (trace w)
     (trace (snd (case credentials result of
                    Inl e \<Rightarrow> (Inl e, w)
                  | Inr (email, password) \<Rightarrow>
                      (Inr (),
                       save_env_vars X None
                         (show_success msg_account_generated
                            (fill_credentials email password w))))))"
proof (cases "credentials result")
  case (Inl e)
  then show ?thesis by simp
next
  case (Inr c)
  obtain email password where c: "c = (email, password)" by (cases c)
  have "prefix (trace w) (trace (show_success msg_account_generated
                            (fill_credentials email password w)))"
    by (simp add: fill_credentials_def)
  then have "prefix (trace w) (trace (save_env_vars X None (show_success msg_account_generated
                            (fill_credentials email password w))))"
    using prefix_save_env_vars by (rule prefix_order.trans)
  then show ?thesis using Inr c by simp
qed

lemma prefix_after_backup:
  "prefix (trace w)
     (trace (snd (and_then (save_domain X) (\<lambda>_.
        and_then (call_generate X) (\<lambda>result w.
          (case credentials result of
             Inl e \<Rightarrow> (Inl e, w)
           | Inr (email, password) \<Rightarrow>
               (Inr (),
                save_env_vars X None
                  (show_success msg_account_generated
                     (fill_credentials email password w)))))) w)))"
  by (intro prefix_and_then prefix_save_domain prefix_call_generate prefix_finish_generate)

lemma prefix_error_handler: "prefix (trace (snd (f w))) (trace (error_handler f w))"
  by (cases "f w") (auto simp: error_handler_def split: sum.splits)

lemma backed_after_backup:
  assumes "trace w1 = trace w @ [BackupFile True]" and "prefix (trace w1) (trace w')"
  shows "writes_backed False (new_events w w')"
proof -
  obtain es where "new_events w w' = [BackupFile True] @ es"
    using new_events_prefix [OF assms(2) assms(1)] by blast
  then show ?thesis by simp
qed

lemma generate_account_backed: "writes_backed False (new_events w (generate_account X w))"
proof (cases "env_file w")
  case None
  then show ?thesis
    by (simp add: generate_account_def error_handler_def generate_account_body_def and_then_def
          backup_env_file_missing new_events_def)
next
  case (Some m)
  show ?thesis
  proof (cases "backup_ok X")
    case False
    then show ?thesis
      using Some
      by (simp add: generate_account_def error_handler_def generate_account_body_def
            and_then_def backup_env_file_failed new_events_def)
  next
    case True
    define w1 where "w1 = (emit (BackupFile True) w)\<lparr>backups := take max_backups (m # backups w)\<rparr>"
    have t1: "trace w1 = trace w @ [BackupFile True]"
      by (simp add: w1_def)
    have "prefix (trace w1) (trace (snd (generate_account_body X w)))"
      using prefix_after_backup [of w1 X]
      by (simp add: generate_account_body_def and_then_def [of "backup_env_file X"]
            backup_env_file_done [OF Some True] w1_def)
    then have "prefix (trace w1) (trace (generate_account X w))"
      unfolding generate_account_def
      using prefix_error_handler by (rule prefix_order.trans)
    with t1 show ?thesis by (rule backed_after_backup)
  qed
qed

lemma prefix_finish_update_auth:
  "prefix (trace v)
     (trace (snd (case process_cookies X c of
                   Inl e \<Rightarrow> (Inl e, emit (ProcessCookies c) v)
                 | Inr result \<Rightarrow>
                     (let w2 = emit (ProcessCookies c) v
                      in if \<not> success result then (Inl (Exception (message result)), w2)
                         else (Inr (),
                               save_env_vars X None
                                 (entry_delete (py ''cookie'')
                                    (show_success (message result) w2)))))))"
  by (simp add: Let_def save_env_vars_simps split: sum.splits)

lemma update_auth_backed: "writes_backed False (new_events w (update_auth X w))"
proof (cases "strip (entries w (py ''cookie'')) = [] \<or>
    \<not> sublist (py ''WorkosCursorSessionToken='') (strip (entries w (py ''cookie'')))")
  case True
  from update_auth_body_rejects [OF this, of X] show ?thesis
    by (simp add: update_auth_def error_handler_def new_events_def)
next
  case valid: False
  show ?thesis
  proof (cases "env_file w")
    case None
    then show ?thesis
      using valid
      by (simp add: update_auth_def error_handler_def update_auth_body_def and_then_def
            backup_env_file_missing new_events_def)
  next
    case (Some m)
    show ?thesis
    proof (cases "backup_ok X")
      case False
      then show ?thesis
        using Some valid
        by (simp add: update_auth_def error_handler_def update_auth_body_def
              and_then_def backup_env_file_failed new_events_def)
    next
      case True
      define w1 where
        "w1 = (emit (BackupFile True) w)\<lparr>backups := take max_backups (m # backups w)\<rparr>"
      have t1: "trace w1 = trace w @ [BackupFile True]"
        by (simp add: w1_def)
      have "prefix (trace w1) (trace (snd (update_auth_body X w)))"
        using prefix_finish_update_auth
          [where v = w1 and X = X and c = "strip (entries w (py ''cookie''))"] valid
        unfolding w1_def
        by (simp add: update_auth_body_def and_then_def backup_env_file_done [OF Some True]
              Let_def)
      then have "prefix (trace w1) (trace (update_auth X w))"
        unfolding update_auth_def
        using prefix_error_handler by (rule prefix_order.trans)
      with t1 show ?thesis by (rule backed_after_backup)
    qed
  qed
qed

lemma email_world_simps:
  "trace email_world = []" "backups email_world = []"
  "visible_updates email_world = [(py ''EMAIL'', py ''a@b.c'')]"
  unfolding email_world_def fresh_world_def visible_updates_def env_vars_def setup_ui_def
  by (simp_all add: py_def strip_def isspace_def)

text \<open>
  Claim C1, as the code has it. In Generate Account and in Update Auth, whatever the
  collaborators answer, every call of \<open>Utils.update_env_vars\<close> of an invocation comes after
  a successful backup made in the same invocation.
\<close>

theorem backup_precedes_writes:
  "writes_backed False (new_events w (generate_account X w)) \<and>
   writes_backed False (new_events w (update_auth X w))"
  using generate_account_backed update_auth_backed by (rule conjI)

theorem backup_precedes_writes_witness:
  "writes_backed False (new_events domain_world (generate_account kind_ext domain_world)) \<and>
   writes_backed False (new_events cookie_world (update_auth kind_ext cookie_world))"
  using backup_precedes_writes [of domain_world kind_ext]
    backup_precedes_writes [of cookie_world kind_ext]
  by simp

text \<open>
  The claim as the spec states it, for every workflow, fails: Reset ID calls no backup step,
  and with an address in the EMAIL entry it writes the store all the same.
\<close>

theorem reset_ID_writes_without_backup:
  "new_events email_world (reset_ID kind_ext email_world) =
     [Reset, ShowSuccess (py ''ID reset''), UpdateEnvVars [(py ''EMAIL'', py ''a@b.c'')] True] \<and>
   \<not> writes_backed False (new_events email_world (reset_ID kind_ext email_world)) \<and>
   backups (reset_ID kind_ext email_world) = backups email_world"
proof -
  have r: "reset kind_ext = Inr \<lparr>success = True, data = NoData, message = py ''ID reset''\<rparr>"
    by (simp add: kind_ext_def)
  have v: "visible_updates (show_success (py ''ID reset'') (emit Reset email_world)) =
      visible_updates email_world"
    by (rule visible_updates_cong) simp
  have ev: "new_events email_world (reset_ID kind_ext email_world) =
     [Reset, ShowSuccess (py ''ID reset''), UpdateEnvVars [(py ''EMAIL'', py ''a@b.c'')] True]"
    by (rule new_events_append)
       (simp add: reset_ID_def error_handler_def reset_ID_body_def r Let_def
          save_env_vars_simps save_events_def v email_world_simps kind_ext_simps)
  have bk: "backups (reset_ID kind_ext email_world) = backups email_world"
    by (simp add: reset_ID_def error_handler_def reset_ID_body_def r Let_def
          save_env_vars_simps)
  show ?thesis
    unfolding ev using bk by simp
qed

section \<open>Auto Register\<close>

lemma step_simps:
  "step ev None w = (Inr (), emit ev w)"
  "step ev (Some e) w = (Inl e, emit ev w)"
  by (simp_all add: step_def)

text \<open>What the sequencer adds to the history, by the first step that raises.\<close>

lemma sequencer_events:
  "\<exists>es. trace (snd (sequencer X w)) = trace w @ es \<and>
        prefix (filter is_step es) sequencer_steps \<and>
        BrowserQuit \<notin> set es \<and>
        browser (snd (sequencer X w)) = fst (init_browser X) \<and>
        filter is_step es =
          take (if snd (init_browser X) \<noteq> None then 1
              else if fill_registration_form X \<noteq> None then 2
              else if fill_password X \<noteq> None then 4
              else if get_user_info X \<noteq> None then 6
              else 7)
            sequencer_steps"
  by (cases "init_browser X"; cases "snd (init_browser X)";
      cases "fill_registration_form X"; cases "fill_password X"; cases "get_user_info X";
      cases "get_cursor_token X")
     (auto simp: sequencer_def and_then_def registrar_init_browser_def step_simps
        wait_for_user_def registrar_get_cursor_token_def report_token_def sequencer_steps_def
        split: option.splits)


lemma filter_is_step_save_events [simp]: "filter is_step (save_events X w) = []"
  by (simp add: save_events_def)

lemma count_quit_save_events [simp]: "count_list (save_events X w) BrowserQuit = 0"
  by (simp add: save_events_def)

lemma count_list_append [simp]: "count_list (xs @ ys) x = count_list xs x + count_list ys x"
  by (induction xs) simp_all

lemma count_list_absent: "x \<notin> set xs \<Longrightarrow> count_list xs x = 0"
  by (induction xs) auto

lemma auto_register_events:
  "\<exists>es tail.
     new_events w (auto_register X w) =
       save_events X w @ [LoadDotenv, NewRegistration] @ es @ tail \<and>
     prefix (filter is_step es) sequencer_steps \<and>
     BrowserQuit \<notin> set es \<and>
     filter is_step tail = [] \<and>
     count_list tail BrowserQuit =
       (if new_registration X = None \<and> fst (init_browser X) then 1 else 0) \<and>
     filter is_step es =
       take (if new_registration X \<noteq> None then 0
             else if snd (init_browser X) \<noteq> None then 1
             else if fill_registration_form X \<noteq> None then 2
             else if fill_password X \<noteq> None then 4
             else if get_user_info X \<noteq> None then 6
             else 7)
         sequencer_steps"
proof -
  define w0 where "w0 = (load_dotenv (save_env_vars X None w))\<lparr>browser := False\<rparr>"
  define w1 where "w1 = emit NewRegistration w0"
  have t1: "trace w1 = trace w @ save_events X w @ [LoadDotenv, NewRegistration]"
    by (simp add: w1_def w0_def save_env_vars_simps)
  show ?thesis
  proof (cases "new_registration X")
    case (Some e)
    have "auto_register X w = emit (ShowError e) w1"
      by (simp add: auto_register_def error_handler_def auto_register_body_def and_then_def
            registration_def step_simps Some w1_def w0_def)
    then have "new_events w (auto_register X w) =
        save_events X w @ [LoadDotenv, NewRegistration] @ [] @ [ShowError e]"
      by (intro new_events_append) (simp add: t1)
    then show ?thesis
      using Some by (intro exI [of _ "[]"] exI [of _ "[ShowError e]"]) simp
  next
    case None
    obtain r w2 where seq: "sequencer X w1 = (r, w2)"
      by (cases "sequencer X w1")
    obtain es where
      t2: "trace w2 = trace w1 @ es" and
      order: "prefix (filter is_step es) sequencer_steps" and
      noquit: "BrowserQuit \<notin> set es" and
      br: "browser w2 = fst (init_browser X)" and
      ran: "filter is_step es =
          take (if snd (init_browser X) \<noteq> None then 1
              else if fill_registration_form X \<noteq> None then 2
              else if fill_password X \<noteq> None then 4
              else if get_user_info X \<noteq> None then 6
              else 7)
            sequencer_steps"
      using sequencer_events [of X w1] seq by auto
    have body: "auto_register_body X w = try_finally (sequencer X) (teardown X) w1"
      by (simp add: auto_register_body_def and_then_def registration_def step_simps None
            w1_def w0_def)
    have "\<exists>tail. trace (auto_register X w) = trace w2 @ tail \<and> filter is_step tail = [] \<and>
        count_list tail BrowserQuit = (if fst (init_browser X) then 1 else 0)"
      by (cases r; cases "browser_quit X")
         (auto simp: auto_register_def error_handler_def body try_finally_def seq teardown_def
            br step_simps)
    then obtain tail where
      t3: "trace (auto_register X w) = trace w2 @ tail" and
      nostep: "filter is_step tail = []" and
      once: "count_list tail BrowserQuit = (if fst (init_browser X) then 1 else 0)"
      by blast
    have "new_events w (auto_register X w) =
        save_events X w @ [LoadDotenv, NewRegistration] @ es @ tail"
      by (intro new_events_append) (simp add: t3 t2 t1)
    then show ?thesis
      using order noquit nostep once ran None
      by (intro exI [of _ es] exI [of _ tail]) simp
  qed
qed

lemma auto_register_normal_run:
  assumes "new_registration X = None" and "init_browser X = (True, None)"
      and "fill_registration_form X = None" and "fill_password X = None"
      and "get_user_info X = None" and "get_cursor_token X = Inr tok"
      and "browser_quit X = None"
  shows "fst (auto_register_body X w) = Inr ()"
    and "new_events w (auto_register X w) =
           save_events X w @ [LoadDotenv, NewRegistration] @ sequencer_steps @
           (case tok of
              None \<Rightarrow> [ShowWarning msg_token_failed]
            | Some t \<Rightarrow>
                if t \<noteq> []
                then [EntryDelete (py ''cookie''),
                      EntryInsert (py ''cookie'') (py ''WorkosCursorSessionToken='' @ t),
                      ShowSuccess msg_auto_register_ok]
                else [ShowWarning msg_token_failed]) @
           [BrowserQuit]"
    and "entries (auto_register X w) (py ''cookie'') =
           (case tok of
              None \<Rightarrow> entries w (py ''cookie'')
            | Some t \<Rightarrow>
                if t \<noteq> [] then py ''WorkosCursorSessionToken='' @ t
                else entries w (py ''cookie''))"
proof -
  define w0 where "w0 = (load_dotenv (save_env_vars X None w))\<lparr>browser := False\<rparr>"
  have t0: "trace w0 = trace w @ save_events X w @ [LoadDotenv]"
    and e0: "entries w0 = entries w"
    by (simp_all add: w0_def save_env_vars_simps)
  have body: "auto_register_body X w =
      try_finally (sequencer X) (teardown X) (emit NewRegistration w0)"
    by (simp add: auto_register_body_def and_then_def registration_def step_simps assms(1)
          w0_def)
  have run: "fst (try_finally (sequencer X) (teardown X) (emit NewRegistration w0)) = Inr () \<and>
      trace (snd (try_finally (sequencer X) (teardown X) (emit NewRegistration w0))) =
        trace w0 @ [NewRegistration] @ sequencer_steps @
           (case tok of
              None \<Rightarrow> [ShowWarning msg_token_failed]
            | Some t \<Rightarrow>
                if t \<noteq> []
                then [EntryDelete (py ''cookie''),
                      EntryInsert (py ''cookie'') (py ''WorkosCursorSessionToken='' @ t),
                      ShowSuccess msg_auto_register_ok]
                else [ShowWarning msg_token_failed]) @
           [BrowserQuit] \<and>
      entries (snd (try_finally (sequencer X) (teardown X) (emit NewRegistration w0)))
        (py ''cookie'') =
           (case tok of
              None \<Rightarrow> entries w (py ''cookie'')
            | Some t \<Rightarrow>
                if t \<noteq> [] then py ''WorkosCursorSessionToken='' @ t
                else entries w (py ''cookie''))"
    by (cases tok)
       (simp_all add: try_finally_def sequencer_def and_then_def registrar_init_browser_def
          step_simps wait_for_user_def registrar_get_cursor_token_def report_token_def
          teardown_def sequencer_steps_def assms e0)
  show "fst (auto_register_body X w) = Inr ()"
    using run by (simp add: body)
  then have same: "auto_register X w = snd (auto_register_body X w)"
    by (cases "auto_register_body X w") (simp add: auto_register_def error_handler_def)
  show "new_events w (auto_register X w) =
           save_events X w @ [LoadDotenv, NewRegistration] @ sequencer_steps @
           (case tok of
              None \<Rightarrow> [ShowWarning msg_token_failed]
            | Some t \<Rightarrow>
                if t \<noteq> []
                then [EntryDelete (py ''cookie''),
                      EntryInsert (py ''cookie'') (py ''WorkosCursorSessionToken='' @ t),
                      ShowSuccess msg_auto_register_ok]
                else [ShowWarning msg_token_failed]) @
           [BrowserQuit]"
    by (rule new_events_append) (simp add: same body run t0)
  show "entries (auto_register X w) (py ''cookie'') =
           (case tok of
              None \<Rightarrow> entries w (py ''cookie'')
            | Some t \<Rightarrow>
                if t \<noteq> [] then py ''WorkosCursorSessionToken='' @ t
                else entries w (py ''cookie''))"
    by (simp add: same body run)
qed

text \<open>The run in which no step raises, whatever \<open>init_browser\<close> and \<open>quit\<close> do to the browser.\<close>

lemma auto_register_full_run:
  assumes "new_registration X = None" and "snd (init_browser X) = None"
      and "fill_registration_form X = None" and "fill_password X = None"
      and "get_user_info X = None" and "get_cursor_token X = Inr tok"
  shows "new_events w (auto_register X w) =
           save_events X w @ [LoadDotenv, NewRegistration] @ sequencer_steps @
           (case tok of
              None \<Rightarrow> [ShowWarning msg_token_failed]
            | Some t \<Rightarrow>
                if t \<noteq> []
                then [EntryDelete (py ''cookie''),
                      EntryInsert (py ''cookie'') (py ''WorkosCursorSessionToken='' @ t),
                      ShowSuccess msg_auto_register_ok]
                else [ShowWarning msg_token_failed]) @
           (if fst (init_browser X)
            then BrowserQuit # (case browser_quit X of None \<Rightarrow> [] | Some e \<Rightarrow> [ShowError e])
            else [])"
    and "entries (auto_register X w) =
           (case tok of
              None \<Rightarrow> entries w
            | Some t \<Rightarrow>
                if t \<noteq> []
                then (entries w)(py ''cookie'' := py ''WorkosCursorSessionToken='' @ t)
                else entries w)"
proof -
  define w0 where "w0 = (load_dotenv (save_env_vars X None w))\<lparr>browser := False\<rparr>"
  have t0: "trace w0 = trace w @ save_events X w @ [LoadDotenv]"
    and e0: "entries w0 = entries w"
    by (simp_all add: w0_def save_env_vars_simps)
  obtain b where ib: "init_browser X = (b, None)"
    using assms(2) by (cases "init_browser X") simp
  have body: "auto_register_body X w =
      try_finally (sequencer X) (teardown X) (emit NewRegistration w0)"
    by (simp add: auto_register_body_def and_then_def registration_def step_simps assms(1)
          w0_def)
  have run: "trace (auto_register X w) =
        trace w0 @ [NewRegistration] @ sequencer_steps @
           (case tok of
              None \<Rightarrow> [ShowWarning msg_token_failed]
            | Some t \<Rightarrow>
                if t \<noteq> []
                then [EntryDelete (py ''cookie''),
                      EntryInsert (py ''cookie'') (py ''WorkosCursorSessionToken='' @ t),
                      ShowSuccess msg_auto_register_ok]
                else [ShowWarning msg_token_failed]) @
           (if b
            then BrowserQuit # (case browser_quit X of None \<Rightarrow> [] | Some e \<Rightarrow> [ShowError e])
            else []) \<and>
      entries (auto_register X w) =
           (case tok of
              None \<Rightarrow> entries w
            | Some t \<Rightarrow>
                if t \<noteq> []
                then (entries w)(py ''cookie'' := py ''WorkosCursorSessionToken='' @ t)
                else entries w)"
    by (cases b; cases "browser_quit X"; cases tok)
       (simp_all add: auto_register_def error_handler_def body try_finally_def sequencer_def
          and_then_def registrar_init_browser_def step_simps wait_for_user_def
          registrar_get_cursor_token_def report_token_def teardown_def sequencer_steps_def
          assms ib e0)
  show "new_events w (auto_register X w) =
           save_events X w @ [LoadDotenv, NewRegistration] @ sequencer_steps @
           (case tok of
              None \<Rightarrow> [ShowWarning msg_token_failed]
            | Some t \<Rightarrow>
                if t \<noteq> []
                then [EntryDelete (py ''cookie''),
                      EntryInsert (py ''cookie'') (py ''WorkosCursorSessionToken='' @ t),
                      ShowSuccess msg_auto_register_ok]
                else [ShowWarning msg_token_failed]) @
           (if fst (init_browser X)
            then BrowserQuit # (case browser_quit X of None \<Rightarrow> [] | Some e \<Rightarrow> [ShowError e])
            else [])"
    by (rule new_events_append) (simp add: run t0 ib)
  show "entries (auto_register X w) =
           (case tok of
              None \<Rightarrow> entries w
            | Some t \<Rightarrow>
                if t \<noteq> []
                then (entries w)(py ''cookie'' := py ''WorkosCursorSessionToken='' @ t)
                else entries w)"
    by (simp add: run)
qed

lemma new_events_save_env_vars: "new_events w (save_env_vars X None w) = save_events X w"
  by (rule new_events_append) (simp add: save_env_vars_simps)

lemma fresh_world_simps:
  "trace fresh_world = []" "visible_updates fresh_world = []"
  "new_events fresh_world (save_env_vars X None fresh_world) = []"
proof -
  show "trace fresh_world = []"
    by (simp add: fresh_world_def)
  show v: "visible_updates fresh_world = []"
    by (simp add: visible_updates_def env_vars_def fresh_world_def setup_ui_def strip_def)
  show "new_events fresh_world (save_env_vars X None fresh_world) = []"
    by (simp add: new_events_save_env_vars save_events_def v)
qed

lemma browser_ext_simps:
  "new_registration tokenless_ext = None" "init_browser tokenless_ext = (True, None)"
  "fill_registration_form tokenless_ext = None" "fill_password tokenless_ext = None"
  "get_user_info tokenless_ext = None" "get_cursor_token tokenless_ext = Inr (Some [])"
  "browser_quit tokenless_ext = None"
  "new_registration stuck_ext = None" "init_browser stuck_ext = (True, None)"
  "fill_password stuck_ext = Some (Exception (py ''timeout''))"
  "new_registration kind_ext = None" "init_browser kind_ext = (True, None)"
  "fill_registration_form kind_ext = None" "fill_password kind_ext = None"
  "get_user_info kind_ext = None" "get_cursor_token kind_ext = Inr (Some (py ''tok''))"
  "browser_quit kind_ext = None"
  by (simp_all add: tokenless_ext_def stuck_ext_def kind_ext_def)

text \<open>
  Claim C4. The browser is closed exactly once in every execution in which
  \<open>init_browser\<close> has created it, however the execution ends: normally, with an empty
  token, or with an exception of any later step. (It is not closed when the registration
  object could not be built or \<open>init_browser\<close> has left \<open>registrar.browser\<close> unset: the
  \<open>finally\<close> block tests that attribute.) When every step succeeds and the token is
  \<open>None\<close> or empty, the body returns without an exception, the warning is shown, and the
  browser is closed after it.
\<close>

theorem auto_register_teardown_once:
  "count_list (new_events w (auto_register X w)) BrowserQuit =
     (if new_registration X = None \<and> fst (init_browser X) then 1 else 0) \<and>
   (new_registration X = None \<and> init_browser X = (True, None) \<and>
    fill_registration_form X = None \<and> fill_password X = None \<and> get_user_info X = None \<and>
    (get_cursor_token X = Inr None \<or> get_cursor_token X = Inr (Some [])) \<and>
    browser_quit X = None \<longrightarrow>
      fst (auto_register_body X w) = Inr () \<and>
      new_events w (auto_register X w) =
        new_events w (save_env_vars X None w) @ [LoadDotenv, NewRegistration] @
        [InitBrowser, FillRegistrationForm, WaitForUser msg_click_button, FillPassword,
         WaitForUser msg_finish_captcha, GetUserInfo, GetCursorToken] @
        [ShowWarning msg_token_failed, BrowserQuit])"
proof -
  obtain es tail where
    "new_events w (auto_register X w) =
       save_events X w @ [LoadDotenv, NewRegistration] @ es @ tail"
    "BrowserQuit \<notin> set es"
    "count_list tail BrowserQuit =
       (if new_registration X = None \<and> fst (init_browser X) then 1 else 0)"
    using auto_register_events [of w X] by blast
  then have once: "count_list (new_events w (auto_register X w)) BrowserQuit =
     (if new_registration X = None \<and> fst (init_browser X) then 1 else 0)"
    by (simp add: count_list_absent)
  have empty: "fst (auto_register_body X w) = Inr () \<and>
      new_events w (auto_register X w) =
        new_events w (save_env_vars X None w) @ [LoadDotenv, NewRegistration] @
        [InitBrowser, FillRegistrationForm, WaitForUser msg_click_button, FillPassword,
         WaitForUser msg_finish_captcha, GetUserInfo, GetCursorToken] @
        [ShowWarning msg_token_failed, BrowserQuit]"
    if h: "new_registration X = None \<and> init_browser X = (True, None) \<and>
      fill_registration_form X = None \<and> fill_password X = None \<and> get_user_info X = None \<and>
      (get_cursor_token X = Inr None \<or> get_cursor_token X = Inr (Some [])) \<and>
      browser_quit X = None"
  proof -
    obtain tok where tok: "get_cursor_token X = Inr tok" "tok = None \<or> tok = Some []"
      using h by blast
    from h have rest: "new_registration X = None" "init_browser X = (True, None)"
      "fill_registration_form X = None" "fill_password X = None"
      "get_user_info X = None" "browser_quit X = None"
      by simp_all
    note n = auto_register_normal_run [OF rest(1-5) tok(1) rest(6), of w]
    show ?thesis
      using n(1) n(2) tok(2)
      by (auto simp: new_events_save_env_vars sequencer_steps_def)
  qed
  show ?thesis using once empty by blast
qed

theorem auto_register_teardown_once_witness:
  "new_registration tokenless_ext = None \<and> init_browser tokenless_ext = (True, None) \<and>
   get_cursor_token tokenless_ext = Inr (Some []) \<and>
   count_list (new_events fresh_world (auto_register tokenless_ext fresh_world)) BrowserQuit = 1 \<and>
   fst (auto_register_body tokenless_ext fresh_world) = Inr () \<and>
   new_events fresh_world (auto_register tokenless_ext fresh_world) =
     [LoadDotenv, NewRegistration, InitBrowser, FillRegistrationForm,
      WaitForUser msg_click_button, FillPassword, WaitForUser msg_finish_captcha, GetUserInfo,
      GetCursorToken, ShowWarning msg_token_failed, BrowserQuit] \<and>
   fill_password stuck_ext = Some (Exception (py ''timeout'')) \<and>
   count_list (new_events fresh_world (auto_register stuck_ext fresh_world)) BrowserQuit = 1"
proof -
  note t = auto_register_teardown_once [of fresh_world tokenless_ext]
  note s = auto_register_teardown_once [of fresh_world stuck_ext]
  have quiet: "new_registration tokenless_ext = None \<and>
      init_browser tokenless_ext = (True, None) \<and>
      fill_registration_form tokenless_ext = None \<and> fill_password tokenless_ext = None \<and>
      get_user_info tokenless_ext = None \<and>
      (get_cursor_token tokenless_ext = Inr None \<or>
       get_cursor_token tokenless_ext = Inr (Some [])) \<and>
      browser_quit tokenless_ext = None"
    by (simp add: browser_ext_simps)
  note run = t [THEN conjunct2, THEN mp, OF quiet]
  have ev: "new_events fresh_world (auto_register tokenless_ext fresh_world) =
     [LoadDotenv, NewRegistration, InitBrowser, FillRegistrationForm,
      WaitForUser msg_click_button, FillPassword, WaitForUser msg_finish_captcha, GetUserInfo,
      GetCursorToken, ShowWarning msg_token_failed, BrowserQuit]"
    using run [THEN conjunct2] by (simp add: fresh_world_simps)
  have c1: "count_list (new_events fresh_world (auto_register tokenless_ext fresh_world))
      BrowserQuit = 1"
    using t [THEN conjunct1] by (simp add: browser_ext_simps)
  have c2: "count_list (new_events fresh_world (auto_register stuck_ext fresh_world))
      BrowserQuit = 1"
    using s [THEN conjunct1] by (simp add: browser_ext_simps)
  show ?thesis
    using c1 c2 run [THEN conjunct1] ev
    by (simp add: browser_ext_simps)
qed

text \<open>
  Claim C5. In every execution the steps of the sequencer that have run are the initial
  part, up to and including the first step that raises, of: browser initialisation,
  registration form, confirmation by the user, password, confirmation by the user, user
  information, token; none has run when the registration object could not be built. When
  no step raises, all seven run, once each and in this order, whatever \<open>init_browser\<close> has
  done to \<open>registrar.browser\<close> and whatever \<open>quit\<close> does afterwards; then a token that
  is not empty is put into the cookie entry behind \<open>WorkosCursorSessionToken=\<close> and success
  is reported, and otherwise the warning is shown and the entries stay as they were.
\<close>

theorem auto_register_linear_order:
  "prefix (filter is_step (new_events w (auto_register X w)))
     [InitBrowser, FillRegistrationForm, WaitForUser msg_click_button, FillPassword,
      WaitForUser msg_finish_captcha, GetUserInfo, GetCursorToken] \<and>
   filter is_step (new_events w (auto_register X w)) =
     take (if new_registration X \<noteq> None then 0
           else if snd (init_browser X) \<noteq> None then 1
           else if fill_registration_form X \<noteq> None then 2
           else if fill_password X \<noteq> None then 4
           else if get_user_info X \<noteq> None then 6
           else 7)
     [InitBrowser, FillRegistrationForm, WaitForUser msg_click_button, FillPassword,
      WaitForUser msg_finish_captcha, GetUserInfo, GetCursorToken] \<and>
   (new_registration X = None \<and> snd (init_browser X) = None \<and>
    fill_registration_form X = None \<and> fill_password X = None \<and> get_user_info X = None \<and>
    get_cursor_token X = Inr tok \<longrightarrow>
      new_events w (auto_register X w) =
        new_events w (save_env_vars X None w) @ [LoadDotenv, NewRegistration] @
        [InitBrowser, FillRegistrationForm, WaitForUser msg_click_button, FillPassword,
         WaitForUser msg_finish_captcha, GetUserInfo, GetCursorToken] @
        (case tok of
           None \<Rightarrow> [ShowWarning msg_token_failed]
         | Some t \<Rightarrow>
             if t \<noteq> []
             then [EntryDelete (py ''cookie''),
                   EntryInsert (py ''cookie'') (py ''WorkosCursorSessionToken='' @ t),
                   ShowSuccess msg_auto_register_ok]
             else [ShowWarning msg_token_failed]) @
        (if fst (init_browser X)
         then BrowserQuit # (case browser_quit X of None \<Rightarrow> [] | Some e \<Rightarrow> [ShowError e])
         else []) \<and>
      entries (auto_register X w) =
        (case tok of
           None \<Rightarrow> entries w
         | Some t \<Rightarrow>
             if t \<noteq> []
             then (entries w)(py ''cookie'' := py ''WorkosCursorSessionToken='' @ t)
             else entries w))"
proof -
  obtain es tail where
    "new_events w (auto_register X w) =
       save_events X w @ [LoadDotenv, NewRegistration] @ es @ tail"
    "prefix (filter is_step es) sequencer_steps"
    "filter is_step tail = []"
    "filter is_step es =
       take (if new_registration X \<noteq> None then 0
             else if snd (init_browser X) \<noteq> None then 1
             else if fill_registration_form X \<noteq> None then 2
             else if fill_password X \<noteq> None then 4
             else if get_user_info X \<noteq> None then 6
             else 7)
         sequencer_steps"
    using auto_register_events [of w X] by blast
  then have order: "prefix (filter is_step (new_events w (auto_register X w))) sequencer_steps"
    and ran: "filter is_step (new_events w (auto_register X w)) =
       take (if new_registration X \<noteq> None then 0
             else if snd (init_browser X) \<noteq> None then 1
             else if fill_registration_form X \<noteq> None then 2
             else if fill_password X \<noteq> None then 4
             else if get_user_info X \<noteq> None then 6
             else 7)
         sequencer_steps"
    by simp_all
  have full: "new_events w (auto_register X w) =
        new_events w (save_env_vars X None w) @ [LoadDotenv, NewRegistration] @
        sequencer_steps @
        (case tok of
           None \<Rightarrow> [ShowWarning msg_token_failed]
         | Some t \<Rightarrow>
             if t \<noteq> []
             then [EntryDelete (py ''cookie''),
                   EntryInsert (py ''cookie'') (py ''WorkosCursorSessionToken='' @ t),
                   ShowSuccess msg_auto_register_ok]
             else [ShowWarning msg_token_failed]) @
        (if fst (init_browser X)
         then BrowserQuit # (case browser_quit X of None \<Rightarrow> [] | Some e \<Rightarrow> [ShowError e])
         else []) \<and>
      entries (auto_register X w) =
        (case tok of
           None \<Rightarrow> entries w
         | Some t \<Rightarrow>
             if t \<noteq> []
             then (entries w)(py ''cookie'' := py ''WorkosCursorSessionToken='' @ t)
             else entries w)"
    if h: "new_registration X = None \<and> snd (init_browser X) = None \<and>
      fill_registration_form X = None \<and> fill_password X = None \<and> get_user_info X = None \<and>
      get_cursor_token X = Inr tok"
  proof -
    from h have hs: "new_registration X = None" "snd (init_browser X) = None"
      "fill_registration_form X = None" "fill_password X = None" "get_user_info X = None"
      "get_cursor_token X = Inr tok"
      by simp_all
    note n = auto_register_full_run [OF hs, of w]
    show ?thesis
      unfolding new_events_save_env_vars using n by simp
  qed
  show ?thesis
    using order ran full unfolding sequencer_steps_def by blast
qed

theorem auto_register_linear_order_witness:
  "get_cursor_token kind_ext = Inr (Some (py ''tok'')) \<and>
   new_events fresh_world (auto_register kind_ext fresh_world) =
     [LoadDotenv, NewRegistration, InitBrowser, FillRegistrationForm,
      WaitForUser msg_click_button, FillPassword, WaitForUser msg_finish_captcha, GetUserInfo,
      GetCursorToken, EntryDelete (py ''cookie''),
      EntryInsert (py ''cookie'') (py ''WorkosCursorSessionToken=tok''),
      ShowSuccess msg_auto_register_ok, BrowserQuit] \<and>
   entries (auto_register kind_ext fresh_world) (py ''cookie'') =
     py ''WorkosCursorSessionToken=tok'' \<and>
   fill_password stuck_ext = Some (Exception (py ''timeout'')) \<and>
   filter is_step (new_events fresh_world (auto_register stuck_ext fresh_world)) =
     [InitBrowser, FillRegistrationForm, WaitForUser msg_click_button, FillPassword]"
proof -
  have h: "new_registration kind_ext = None \<and> snd (init_browser kind_ext) = None \<and>
    fill_registration_form kind_ext = None \<and> fill_password kind_ext = None \<and>
    get_user_info kind_ext = None \<and> get_cursor_token kind_ext = Inr (Some (py ''tok''))"
    by (simp add: browser_ext_simps)
  have j: "py ''WorkosCursorSessionToken='' @ py ''tok'' = py ''WorkosCursorSessionToken=tok''"
    "py ''tok'' \<noteq> []"
    by (simp_all add: py_def)
  note t = auto_register_linear_order
    [of fresh_world kind_ext "Some (py ''tok'')", THEN conjunct2, THEN conjunct2, THEN mp, OF h]
  have ev: "new_events fresh_world (auto_register kind_ext fresh_world) =
     [LoadDotenv, NewRegistration, InitBrowser, FillRegistrationForm,
      WaitForUser msg_click_button, FillPassword, WaitForUser msg_finish_captcha, GetUserInfo,
      GetCursorToken, EntryDelete (py ''cookie''),
      EntryInsert (py ''cookie'') (py ''WorkosCursorSessionToken=tok''),
      ShowSuccess msg_auto_register_ok, BrowserQuit]"
    using t [THEN conjunct1] by (simp add: fresh_world_simps j browser_ext_simps)
  have en: "entries (auto_register kind_ext fresh_world) (py ''cookie'') =
     py ''WorkosCursorSessionToken=tok''"
    using t [THEN conjunct2] by (simp add: j)
  have f: "fill_registration_form stuck_ext = None"
    by (simp add: stuck_ext_def kind_ext_def)
  have st: "filter is_step (new_events fresh_world (auto_register stuck_ext fresh_world)) =
     [InitBrowser, FillRegistrationForm, WaitForUser msg_click_button, FillPassword]"
    using auto_register_linear_order
      [of fresh_world stuck_ext None, THEN conjunct2, THEN conjunct1]
    by (simp add: browser_ext_simps f)
  show ?thesis
    using ev en st by (simp add: browser_ext_simps)
qed

end
